theory Spec2Isabelle
  imports Main "HOL-Library.Word" "HOL-Library.AList"
begin

section \<open>The video relay of \<^verbatim>\<open>src/index.js\<close>\<close>

text \<open>
  The development embeds the route \<^verbatim>\<open>GET /video-proxy\<close> of \<^verbatim>\<open>src/index.js\<close>: the handler
  (lines 170 to 219, \<open>video_proxy\<close> below) and, in front of it, the rate limiter of lines 38
  to 42 and the compression middleware of line 24.
  The handler is written against the JavaScript runtime: it calls \<^verbatim>\<open>decodeURIComponent\<close>,
  \<^verbatim>\<open>encodeURIComponent\<close>, \<^verbatim>\<open>new URL\<close>, \<^verbatim>\<open>http.request\<close> and the response object of the
  web framework. The two URI functions are embedded in full, after the algorithms
  \<^verbatim>\<open>Decode\<close> and \<^verbatim>\<open>Encode\<close> of the language standard. The URL parser and the network are
  parameters of the model (the record \<open>runtime\<close>), so that the general theorems hold for
  whatever they do.

  The handler \<open>video_proxy\<close> is the function that runs once the limiter has admitted the
  request. Its outcome records what the handler and its two callbacks do with the inbound
  response: the status, the headers they set and the bytes they write. What the
  compression middleware makes of the headers and the body on their way out is the
  function \<open>compression\<close>. The headers that \<^verbatim>\<open>helmet\<close>, the limiter and the middleware of
  line 117 add to every response are not modelled. An upstream response is a status,
  headers and a list of octets; it arrives whole, or an error of the transport cuts it
  after some of its octets. A body that stops arriving without an error is not modelled.
\<close>

subsection \<open>Strings\<close>

text \<open>A JavaScript string is a sequence of 16-bit code units.\<close>

type_synonym code_unit = "16 word"
type_synonym jsstring = "code_unit list"
type_synonym octet = "8 word"

definition js :: "string \<Rightarrow> jsstring" where
  "js s = map of_char s"

text \<open>The empty string is the only falsy string.\<close>

definition truthy :: "jsstring \<Rightarrow> bool" where
  "truthy s \<longleftrightarrow> s \<noteq> []"

datatype js_error = URIError | TypeError | RangeError

subsection \<open>\<^verbatim>\<open>encodeURIComponent\<close>\<close>

text \<open>The code units that stay as they are: ASCII letters, digits and nine marks.\<close>

definition unescaped :: "code_unit \<Rightarrow> bool" where
  "unescaped c \<longleftrightarrow>
     (0x41 \<le> c \<and> c \<le> 0x5A) \<or> (0x61 \<le> c \<and> c \<le> 0x7A) \<or> (0x30 \<le> c \<and> c \<le> 0x39)
     \<or> c \<in> set (js ''_-.!~*'()'')"

definition is_leading_surrogate :: "code_unit \<Rightarrow> bool" where
  "is_leading_surrogate c \<longleftrightarrow> 0xD800 \<le> c \<and> c \<le> 0xDBFF"

definition is_trailing_surrogate :: "code_unit \<Rightarrow> bool" where
  "is_trailing_surrogate c \<longleftrightarrow> 0xDC00 \<le> c \<and> c \<le> 0xDFFF"

definition surrogate_pair_to_code_point :: "code_unit \<Rightarrow> code_unit \<Rightarrow> nat" where
  "surrogate_pair_to_code_point lead trail =
     (unat lead - 0xD800) * 0x400 + (unat trail - 0xDC00) + 0x10000"

definition utf8_encode :: "nat \<Rightarrow> octet list" where
  "utf8_encode v =
     (if v < 0x80 then [of_nat v]
      else if v < 0x800 then [of_nat (0xC0 + v div 0x40), of_nat (0x80 + v mod 0x40)]
      else if v < 0x10000 then
        [of_nat (0xE0 + v div 0x1000), of_nat (0x80 + v div 0x40 mod 0x40),
         of_nat (0x80 + v mod 0x40)]
      else
        [of_nat (0xF0 + v div 0x40000), of_nat (0x80 + v div 0x1000 mod 0x40),
         of_nat (0x80 + v div 0x40 mod 0x40), of_nat (0x80 + v mod 0x40)])"

definition hex_char :: "nat \<Rightarrow> code_unit" where
  "hex_char d = js ''0123456789ABCDEF'' ! (d mod 16)"

definition percent_hex :: "octet \<Rightarrow> jsstring" where
  "percent_hex b = [0x25, hex_char (unat b div 16), hex_char (unat b mod 16)]"

text \<open>
  \<^verbatim>\<open>Encode\<close>: an unescaped code unit is kept; any other code point is written as the
  \<^verbatim>\<open>%XX\<close> escapes of its UTF-8 octets; an unpaired surrogate throws \<^verbatim>\<open>URIError\<close>.
\<close>

fun Encode :: "jsstring \<Rightarrow> js_error + jsstring" where
  "Encode [] = Inr []"
| "Encode (c # cs) =
     (if unescaped c then map_sum id ((#) c) (Encode cs)
      else if is_trailing_surrogate c then Inl URIError
      else if is_leading_surrogate c then
        (case cs of
           [] \<Rightarrow> Inl URIError
         | d # ds \<Rightarrow>
             if is_trailing_surrogate d
             then map_sum id ((@) (concat (map percent_hex
                    (utf8_encode (surrogate_pair_to_code_point c d))))) (Encode ds)
             else Inl URIError)
      else map_sum id ((@) (concat (map percent_hex (utf8_encode (unat c))))) (Encode cs))"

definition encodeURIComponent :: "jsstring \<Rightarrow> js_error + jsstring" where
  "encodeURIComponent s = Encode s"

subsection \<open>\<^verbatim>\<open>decodeURIComponent\<close>\<close>

definition hex_value :: "code_unit \<Rightarrow> nat option" where
  "hex_value c =
     (if 0x30 \<le> c \<and> c \<le> 0x39 then Some (unat c - 0x30)
      else if 0x41 \<le> c \<and> c \<le> 0x46 then Some (unat c - 0x41 + 10)
      else if 0x61 \<le> c \<and> c \<le> 0x66 then Some (unat c - 0x61 + 10)
      else None)"

text \<open>One escape \<^verbatim>\<open>%XX\<close> at the head of the string: its octet and the rest.\<close>

fun escape_octet :: "jsstring \<Rightarrow> (octet \<times> jsstring) option" where
  "escape_octet (p # h # l # rest) =
     (if p = 0x25 then
        (case (hex_value h, hex_value l) of
           (Some a, Some b) \<Rightarrow> Some (of_nat (16 * a + b), rest)
         | _ \<Rightarrow> None)
      else None)"
| "escape_octet _ = None"

fun continuation_octets :: "nat \<Rightarrow> jsstring \<Rightarrow> (octet list \<times> jsstring) option" where
  "continuation_octets 0 s = Some ([], s)"
| "continuation_octets (Suc j) s =
     (case escape_octet s of
        None \<Rightarrow> None
      | Some (b, rest) \<Rightarrow>
          (case continuation_octets j rest of
             None \<Rightarrow> None
           | Some (bs, rest') \<Rightarrow> Some (b # bs, rest')))"

text \<open>The number of leading one bits of an octet, by its range.\<close>

definition leading_ones :: "octet \<Rightarrow> nat" where
  "leading_ones b =
     (if b < 0x80 then 0
      else if b < 0xC0 then 1
      else if b < 0xE0 then 2
      else if b < 0xF0 then 3
      else if b < 0xF8 then 4
      else 5)"

text \<open>A continuation octet is \<^verbatim>\<open>10xxxxxx\<close>.\<close>

definition is_continuation :: "octet \<Rightarrow> bool" where
  "is_continuation b \<longleftrightarrow> 0x80 \<le> b \<and> b < 0xC0"

text \<open>The \<open>n\<close> low bits of an octet.\<close>

definition low_bits :: "nat \<Rightarrow> octet \<Rightarrow> nat" where
  "low_bits n b = unat b mod 2 ^ n"

text \<open>
  The code point of a well-formed UTF-8 sequence of two to four octets: no overlong form,
  no surrogate, nothing above \<^verbatim>\<open>U+10FFFF\<close>.
\<close>

fun utf8_decode :: "octet list \<Rightarrow> nat option" where
  "utf8_decode [b0, b1] =
     (let v = low_bits 5 b0 * 0x40 + low_bits 6 b1
      in if is_continuation b1 \<and> 0x80 \<le> v then Some v else None)"
| "utf8_decode [b0, b1, b2] =
     (let v = low_bits 4 b0 * 0x1000 + low_bits 6 b1 * 0x40 + low_bits 6 b2
      in if is_continuation b1 \<and> is_continuation b2 \<and> 0x800 \<le> v
            \<and> \<not> (0xD800 \<le> v \<and> v \<le> 0xDFFF)
         then Some v else None)"
| "utf8_decode [b0, b1, b2, b3] =
     (let v = low_bits 3 b0 * 0x40000 + low_bits 6 b1 * 0x1000 + low_bits 6 b2 * 0x40
              + low_bits 6 b3
      in if is_continuation b1 \<and> is_continuation b2 \<and> is_continuation b3
            \<and> 0x10000 \<le> v \<and> v \<le> 0x10FFFF
         then Some v else None)"
| "utf8_decode _ = None"

definition utf16_encode_code_point :: "nat \<Rightarrow> jsstring" where
  "utf16_encode_code_point v =
     (if v \<le> 0xFFFF then [of_nat v]
      else [of_nat ((v - 0x10000) div 0x400 + 0xD800),
            of_nat ((v - 0x10000) mod 0x400 + 0xDC00)])"

text \<open>
  \<^verbatim>\<open>Decode\<close>: a code unit other than \<^verbatim>\<open>%\<close> is kept; \<^verbatim>\<open>%\<close> must start an escape; an
  octet with \<open>n\<close> leading one bits opens a UTF-8 sequence of \<open>n\<close> escapes. Every
  violation throws \<^verbatim>\<open>URIError\<close>.
\<close>

function Decode :: "jsstring \<Rightarrow> js_error + jsstring" where
  "Decode [] = Inr []"
| "Decode (c # cs) =
     (if c \<noteq> 0x25 then map_sum id ((#) c) (Decode cs)
      else
        (case escape_octet (c # cs) of
           None \<Rightarrow> Inl URIError
         | Some (b, rest) \<Rightarrow>
             (let n = leading_ones b in
              if n = 0 then map_sum id ((#) (ucast b)) (Decode rest)
              else if n = 1 \<or> 4 < n then Inl URIError
              else
                (case continuation_octets (n - 1) rest of
                   None \<Rightarrow> Inl URIError
                 | Some (bs, rest') \<Rightarrow>
                     (case utf8_decode (b # bs) of
                        None \<Rightarrow> Inl URIError
                      | Some v \<Rightarrow>
                          map_sum id ((@) (utf16_encode_code_point v)) (Decode rest'))))))"
  by pat_completeness auto
termination
proof -
  have esc: "length rest < length s" if "escape_octet s = Some (b, rest)" for s b rest
    using that by (induction s rule: escape_octet.induct) (auto split: if_splits option.splits)
  have cont: "length rest \<le> length s"
    if "continuation_octets j s = Some (bs, rest)" for j s bs rest
    using that
  proof (induction j arbitrary: s bs rest)
    case 0
    then show ?case by simp
  next
    case (Suc j)
    then show ?case by (fastforce split: option.splits dest: esc)
  qed
  show ?thesis
  proof (relation "measure length", goal_cases)
    case 1
    show ?case by simp
  next
    case (2 c cs)
    show ?case by simp
  next
    case (3 c cs x2 x y xa)
    then show ?case using esc [of "c # cs" x y] by simp
  next
    case (4 c cs x2 x y xa x2a xb ya x2b)
    then show ?case
      using esc [of "c # cs" x y] cont [of "leading_ones x - 1" y xb ya] by simp
  qed
qed

definition decodeURIComponent :: "jsstring \<Rightarrow> js_error + jsstring" where
  "decodeURIComponent s = Decode s"

subsection \<open>The objects of the handler\<close>

text \<open>
  The fields of a \<^verbatim>\<open>URL\<close> object that exist on every parsed URL. The handler reads
  \<open>protocol\<close>, \<open>hostname\<close>, \<open>port\<close>, \<open>pathname\<close> and \<open>search\<close>.
\<close>

record url =
  protocol :: jsstring
  username :: jsstring
  password :: jsstring
  hostname :: jsstring
  port :: jsstring
  pathname :: jsstring
  search :: jsstring
  hash :: jsstring

text \<open>The modules \<^verbatim>\<open>http\<close> and \<^verbatim>\<open>https\<close>.\<close>

datatype client = http | https

text \<open>
  \<^verbatim>\<open>parsed.port || (... ? 443 : 80)\<close> is the port string of the URL or one of two numbers.
\<close>

datatype port_value = PortString jsstring | PortNumber nat

text \<open>
  A header object: names with their values, in the order of insertion. \<open>map_of\<close> reads a
  property and \<open>AList.update\<close> assigns one.
\<close>

type_synonym header_map = "(string \<times> jsstring) list"

text \<open>
  The options object of line 179. It has no \<^verbatim>\<open>method\<close> property (\<open>opts_method\<close> is
  \<open>None\<close>), and \<^verbatim>\<open>http.request\<close> then sends \<^verbatim>\<open>GET\<close>.
\<close>

record opts =
  opts_hostname :: jsstring
  opts_port :: port_value
  opts_path :: jsstring
  opts_method :: "jsstring option"
  opts_headers :: header_map

definition request_method :: "opts \<Rightarrow> jsstring" where
  "request_method options = (case opts_method options of Some m \<Rightarrow> m | None \<Rightarrow> js ''GET'')"

text \<open>
  The upstream response as the callback sees it: the status code, the header object
  (lower-case names) and the body that \<^verbatim>\<open>pipe\<close> copies.
\<close>

record proxyRes =
  statusCode :: nat
  headers :: header_map
  body :: "octet list"

text \<open>
  What an outbound request does once it exists. \<open>ResponseEvent\<close>: it calls the response
  callback, and the response arrives whole. \<open>ErrorEvent\<close>: it emits \<^verbatim>\<open>'error'\<close> and there is
  no response (the listener of line 213 ignores the error object). \<open>NoEvent\<close>: it does
  neither, the upstream accepts the connection and stays silent (the handler sets no
  timeout). \<open>ResponseThenError\<close>: it calls the response callback and emits \<^verbatim>\<open>'error'\<close>
  afterwards, the listener of line 213 being still registered; the \<open>body\<close> of the response
  is then what \<^verbatim>\<open>pipe\<close> had written to the inbound response before the error.
\<close>

datatype request_event =
  ResponseEvent proxyRes | ErrorEvent jsstring | NoEvent | ResponseThenError proxyRes jsstring

text \<open>
  The runtime: \<^verbatim>\<open>new URL(s)\<close> returns a URL or throws; \<^verbatim>\<open>client.request(opts, callback)\<close>
  throws while it builds the request or returns a request with its later event.
\<close>

record runtime =
  URL_new :: "jsstring \<Rightarrow> js_error + url"
  client_request :: "client \<Rightarrow> opts \<Rightarrow> js_error + request_event"

text \<open>
  The inbound request: \<^verbatim>\<open>req.query.url\<close> and \<^verbatim>\<open>req.headers.range\<close>, each a string or
  \<^verbatim>\<open>undefined\<close>. (A repeated or bracketed \<^verbatim>\<open>url\<close> parameter, which the framework turns
  into an array or an object, is not modelled.)
\<close>

record req =
  query_url :: "jsstring option"
  headers_range :: "jsstring option"

text \<open>
  What the handler does with \<^verbatim>\<open>res\<close>: \<^verbatim>\<open>res.status(n).end()\<close>, \<^verbatim>\<open>res.redirect(url)\<close>, or
  \<^verbatim>\<open>res.status(n)\<close>, some \<^verbatim>\<open>res.setHeader\<close> and \<^verbatim>\<open>proxyRes.pipe(res)\<close> of a response that
  arrives whole. \<open>Cut\<close> is a response that the callback began and the listener of line 213
  ended with \<^verbatim>\<open>res.status(502).end()\<close>: the status line that went out, the headers the
  callback had set and the bytes written before the error. \<open>TooManyRequests\<close> is the answer
  of the rate limiter.
\<close>

datatype res_action =
  End nat | Redirect jsstring | Pipe nat header_map "octet list"
  | Cut nat header_map "octet list" | TooManyRequests

text \<open>
  The status line the inbound client reads. \<^verbatim>\<open>res.redirect\<close> with one argument answers
  \<^verbatim>\<open>302 Found\<close> with the \<^verbatim>\<open>Location\<close> it was given; the limiter answers 429.
\<close>

fun status_of :: "res_action \<Rightarrow> nat" where
  "status_of (End n) = n"
| "status_of (Redirect target) = 302"
| "status_of (Pipe n h b) = n"
| "status_of (Cut n h b) = n"
| "status_of TooManyRequests = 429"

text \<open>
  The body the handler writes; the body of a redirect is the framework's, and the body of
  the limiter's answer is its configured message.
\<close>

fun body_of :: "res_action \<Rightarrow> octet list option" where
  "body_of (End n) = Some []"
| "body_of (Redirect target) = None"
| "body_of (Pipe n h b) = Some b"
| "body_of (Cut n h b) = Some b"
| "body_of TooManyRequests = None"

text \<open>
  What became of the inbound response: it was answered; or nothing answers it; or an
  exception left the response callback, which no \<^verbatim>\<open>try\<close> block encloses, uncaught.
\<close>

datatype inbound_outcome = Answered res_action | Unanswered | CallbackThrew js_error

text \<open>
  The outcome of one run of the handler: what became of the inbound response, and the
  upstream requests that were created.
\<close>

record result =
  inbound :: inbound_outcome
  outbound :: "(client \<times> opts) list"

subsection \<open>The handler\<close>

text \<open>\<^verbatim>\<open>a || b\<close> on a header value that may be \<^verbatim>\<open>undefined\<close>.\<close>

definition or_else :: "jsstring option \<Rightarrow> jsstring \<Rightarrow> jsstring" where
  "or_else v d = (case v of Some s \<Rightarrow> if truthy s then s else d | None \<Rightarrow> d)"

text \<open>\<^verbatim>\<open>if (v)\<close> on such a value: the value when it is truthy.\<close>

definition when_truthy :: "jsstring option \<Rightarrow> jsstring option" where
  "when_truthy v = (case v of Some s \<Rightarrow> if truthy s then Some s else None | None \<Rightarrow> None)"

text \<open>Lines 177 to 192.\<close>

definition select_client :: "url \<Rightarrow> client" where
  "select_client parsed = (if protocol parsed = js ''https:'' then https else http)"

definition make_opts :: "url \<Rightarrow> req \<Rightarrow> opts" where
  "make_opts parsed r =
     (let options =
        \<lparr> opts_hostname = hostname parsed,
          opts_port =
            (if truthy (port parsed) then PortString (port parsed)
             else PortNumber (if protocol parsed = js ''https:'' then 443 else 80)),
          opts_path = pathname parsed @ search parsed,
          opts_method = None,
          opts_headers =
            [(''User-Agent'', js ''Mozilla/5.0''),
             (''Accept'', js ''*/*''),
             (''Accept-Encoding'', js ''identity'')] \<rparr>
      in case when_truthy (headers_range r) of
           Some v \<Rightarrow> options\<lparr>opts_headers := AList.update ''Range'' v (opts_headers options)\<rparr>
         | None \<Rightarrow> options)"

text \<open>Line 195: the \<^verbatim>\<open>Location\<close> of a response the callback treats as a redirect.\<close>

definition redirect_location :: "proxyRes \<Rightarrow> jsstring option" where
  "redirect_location r =
     (if statusCode r \<in> set [301, 302, 307, 308] then when_truthy (map_of (headers r) ''location'')
      else None)"

text \<open>Lines 200 to 208.\<close>

definition content_headers :: "proxyRes \<Rightarrow> header_map" where
  "content_headers r =
     (let h1 = AList.update ''Content-Type''
                 (or_else (map_of (headers r) ''content-type'') (js ''video/mp4'')) [];
          h2 = AList.update ''Accept-Ranges'' (js ''bytes'') h1;
          h3 = (case when_truthy (map_of (headers r) ''content-length'') of
                  Some v \<Rightarrow> AList.update ''Content-Length'' v h2
                | None \<Rightarrow> h2);
          h4 = (case when_truthy (map_of (headers r) ''content-range'') of
                  Some v \<Rightarrow> AList.update ''Content-Range'' v h3
                | None \<Rightarrow> h3)
      in h4)"

text \<open>
  The response callback, lines 194 to 211. It runs when the upstream answers, after the
  \<^verbatim>\<open>try\<close> block has been left, so that nothing catches what it throws.
  \<^verbatim>\<open>encodeURIComponent\<close> (line 196) throws on an unpaired surrogate. A status code below
  100 or above 999 is refused with a \<^verbatim>\<open>RangeError\<close>: by \<^verbatim>\<open>res.status\<close> at line 199 in
  version 5 of the framework, and in version 4, where \<^verbatim>\<open>res.status\<close> only stores the code,
  by \<^verbatim>\<open>writeHead\<close> when \<^verbatim>\<open>pipe\<close> first writes to the response or ends it. Either way the
  exception is uncaught and nothing is relayed.
\<close>

definition on_response :: "proxyRes \<Rightarrow> js_error + res_action" where
  "on_response r =
     (case redirect_location r of
        Some location \<Rightarrow>
          (case encodeURIComponent location of
             Inl e \<Rightarrow> Inl e
           | Inr encoded \<Rightarrow> Inr (Redirect (js ''/video-proxy?url='' @ encoded)))
      | None \<Rightarrow>
          if statusCode r < 100 \<or> 999 < statusCode r then Inl RangeError
          else Inr (Pipe (statusCode r) (content_headers r) (body r)))"

text \<open>
  The listener of line 213, \<^verbatim>\<open>res.status(502).end()\<close>, when it runs after the callback. A
  redirect has been sent and ended: the listener changes nothing. Of a content response
  the status line and the headers go out with the first byte that \<^verbatim>\<open>pipe\<close> writes. When
  no byte has been written, the listener's status 502 replaces the upstream's and the
  response ends without a body, with the headers the callback had set. When bytes have
  been written, the status line is out, \<^verbatim>\<open>res.status(502)\<close> comes too late, and
  \<^verbatim>\<open>end()\<close> closes the response after those bytes.
\<close>

fun after_response :: "res_action \<Rightarrow> res_action" where
  "after_response (Pipe n h b) = (if b = [] then Cut 502 h [] else Cut n h b)"
| "after_response a = a"

text \<open>
  The events of the request: the callback and the listener of line 213. When the callback
  has thrown, the exception is uncaught whatever comes later. (For a status code that is
  refused this is version 5 of the framework; in version 4 the code is refused at the
  first write, so that an error that comes before it is still answered by the listener.)
\<close>

fun on_event :: "request_event \<Rightarrow> inbound_outcome" where
  "on_event (ResponseEvent r) =
     (case on_response r of Inl e \<Rightarrow> CallbackThrew e | Inr a \<Rightarrow> Answered a)"
| "on_event (ErrorEvent err) = Answered (End 502)"
| "on_event NoEvent = Unanswered"
| "on_event (ResponseThenError r err) =
     (case on_response r of
        Inl e \<Rightarrow> CallbackThrew e
      | Inr a \<Rightarrow> Answered (after_response a))"

text \<open>
  The \<^verbatim>\<open>try\<close> block, lines 175 to 214: it throws, or it has created one request with
  the client, the options and the event that follows.
\<close>

definition try_block :: "runtime \<Rightarrow> req \<Rightarrow> jsstring \<Rightarrow> js_error + client \<times> opts \<times> request_event" where
  "try_block rt r url =
     (case decodeURIComponent url of
        Inl e \<Rightarrow> Inl e
      | Inr decodedUrl \<Rightarrow>
          (case URL_new rt decodedUrl of
             Inl e \<Rightarrow> Inl e
           | Inr parsed \<Rightarrow>
               (let client = select_client parsed;
                    options = make_opts parsed r
                in case client_request rt client options of
                     Inl e \<Rightarrow> Inl e
                   | Inr ev \<Rightarrow> Inr (client, options, ev))))"

text \<open>
  The handler, lines 170 to 219. Its value is \<open>Inl\<close> when an exception leaves the handler
  function itself, and \<open>Inr\<close> with the outcome otherwise; an exception that leaves the
  response callback later is the outcome \<open>CallbackThrew\<close>.
\<close>

definition video_proxy :: "runtime \<Rightarrow> req \<Rightarrow> js_error + result" where
  "video_proxy rt r =
     (case when_truthy (query_url r) of
        None \<Rightarrow> Inr \<lparr>inbound = Answered (End 400), outbound = []\<rparr>
      | Some url \<Rightarrow>
          (case try_block rt r url of
             Inl error \<Rightarrow> Inr \<lparr>inbound = Answered (End 400), outbound = []\<rparr>
           | Inr (client, options, ev) \<Rightarrow>
               Inr \<lparr>inbound = on_event ev, outbound = [(client, options)]\<rparr>))"

text \<open>
  The exception, if any, that a run of the handler leaves uncaught: one that leaves the
  handler function, or one that leaves the response callback.
\<close>

definition uncaught :: "js_error + result \<Rightarrow> js_error option" where
  "uncaught x =
     (case x of
        Inl e \<Rightarrow> Some e
      | Inr res \<Rightarrow> (case inbound res of CallbackThrew e \<Rightarrow> Some e | _ \<Rightarrow> None))"

subsection \<open>Before and after the handler\<close>

text \<open>
  The framework fills \<^verbatim>\<open>req.query\<close> before the handler runs. Its query parser turns every
  \<^verbatim>\<open>+\<close> of a raw value into a space and applies \<^verbatim>\<open>decodeURIComponent\<close>, keeping the
  undecoded string when that throws.
\<close>

definition query_value :: "jsstring \<Rightarrow> jsstring" where
  "query_value raw =
     (let strWithoutPlus = map (\<lambda>c. if c = 0x2B then 0x20 else c) raw
      in case decodeURIComponent strWithoutPlus of
           Inr decoded \<Rightarrow> decoded
         | Inl e \<Rightarrow> strWithoutPlus)"

text \<open>
  The request object for \<^verbatim>\<open>GET /video-proxy?url=raw\<close> (or for no \<^verbatim>\<open>url\<close> parameter) with
  the given \<^verbatim>\<open>Range\<close> header.
\<close>

definition inbound_request :: "jsstring option \<Rightarrow> jsstring option \<Rightarrow> req" where
  "inbound_request raw range_header =
     \<lparr>query_url = map_option query_value raw, headers_range = range_header\<rparr>"

text \<open>
  The rate limiter of lines 38 to 42 stands before the handler (line 170). It counts the
  requests of one client address in a window of fifteen minutes; \<open>totalHits\<close> is its count
  for the request at hand, that request included. With \<^verbatim>\<open>max: 100\<close> it passes a request on
  as long as the count is at most 100, and answers every further one itself, with status
  429 and its message.
\<close>

definition videoProxyLimiter :: "nat \<Rightarrow> bool" where
  "videoProxyLimiter totalHits \<longleftrightarrow> totalHits \<le> 100"

definition video_proxy_route :: "runtime \<Rightarrow> nat \<Rightarrow> req \<Rightarrow> js_error + result" where
  "video_proxy_route rt totalHits r =
     (if videoProxyLimiter totalHits then video_proxy rt r
      else Inr \<lparr>inbound = Answered TooManyRequests, outbound = []\<rparr>)"

text \<open>
  A client that follows the \<^verbatim>\<open>Location\<close> of \<^verbatim>\<open>res.redirect\<close> back to the relay, with
  the headers of its first request.
\<close>

definition follow :: "req \<Rightarrow> jsstring \<Rightarrow> req option" where
  "follow r target =
     (if take 17 target = js ''/video-proxy?url=''
      then Some (inbound_request (Some (drop 17 target)) (headers_range r))
      else None)"

text \<open>
  The outcome of the last request of such a client, which follows one redirect of the
  relay after the other. \<open>hits\<close> is the limiter's count for the request at hand and \<open>later\<close>
  holds its counts for the requests that follow, one for each redirect the client is
  willing to follow. The client stops at the first answer that is no redirect of the relay.
\<close>

fun chase :: "runtime \<Rightarrow> nat \<Rightarrow> nat list \<Rightarrow> req \<Rightarrow> js_error + result" where
  "chase rt hits [] r = video_proxy_route rt hits r"
| "chase rt hits (next_hits # later) r =
     (case video_proxy_route rt hits r of
        Inl e \<Rightarrow> Inl e
      | Inr res \<Rightarrow>
          (case inbound res of
             Answered (Redirect target) \<Rightarrow>
               (case follow r target of
                  Some r' \<Rightarrow> chase rt next_hits later r'
                | None \<Rightarrow> Inr res)
           | _ \<Rightarrow> Inr res))"

text \<open>
  The compression middleware of line 24 stands before every route and acts when the
  headers of a response are about to be written. What it decides is the library's, from
  the content type, the size and the \<^verbatim>\<open>Accept-Encoding\<close> of the inbound request. It leaves
  the response alone (\<open>Filtered\<close>, as for a content type that is not compressible); or it
  adds \<^verbatim>\<open>Vary: Accept-Encoding\<close> and does not encode (\<open>NotEncoded\<close>, as for a short body or
  a client that accepts no encoding); or it adds \<^verbatim>\<open>Vary\<close>, sets \<^verbatim>\<open>Content-Encoding\<close> to
  the coding it chose, removes \<^verbatim>\<open>Content-Length\<close> and passes the body through \<^verbatim>\<open>zlib\<close>
  (\<open>Encoded\<close>). It changes no status.
\<close>

datatype compression_decision = Filtered | NotEncoded | Encoded jsstring

definition compression ::
  "(jsstring \<Rightarrow> octet list \<Rightarrow> octet list) \<Rightarrow> compression_decision \<Rightarrow>
     header_map \<times> octet list \<Rightarrow> header_map \<times> octet list" where
  "compression zlib decision response =
     (case response of
        (h, b) \<Rightarrow>
          (case decision of
             Filtered \<Rightarrow> (h, b)
           | NotEncoded \<Rightarrow> (AList.update ''Vary'' (js ''Accept-Encoding'') h, b)
           | Encoded coding \<Rightarrow>
               (AList.delete ''Content-Length''
                  (AList.update ''Content-Encoding'' coding
                     (AList.update ''Vary'' (js ''Accept-Encoding'') h)),
                zlib coding b)))"

subsection \<open>A runtime for the examples\<close>

text \<open>
  The examples below run the handler in a runtime that parses the URLs of the examples as
  \<^verbatim>\<open>new URL\<close> does, throws on every other string as \<^verbatim>\<open>new URL\<close> does on
  \<^verbatim>\<open>not-a-url\<close> and on \<^verbatim>\<open>http%3A%2F%2Fb.example%2Fv.mp4\<close>, which name no scheme, and
  puts a small upstream behind each host. \<^verbatim>\<open>odd.example\<close> answers with the status code
  99, \<^verbatim>\<open>slow.example\<close> accepts the connection and never answers,
  \<^verbatim>\<open>down.example\<close> refuses the connection, and \<^verbatim>\<open>cut.example\<close> resets the connection
  after the first two octets of a body of a thousand.
\<close>

definition example_URL :: "jsstring \<Rightarrow> js_error + url" where
  "example_URL s =
     (if s = js ''http://a.example/v.mp4'' then
        Inr \<lparr>protocol = js ''http:'', username = [], password = [],
             hostname = js ''a.example'', port = [], pathname = js ''/v.mp4'',
             search = [], hash = []\<rparr>
      else if s = js ''http://a.example/loop'' then
        Inr \<lparr>protocol = js ''http:'', username = [], password = [],
             hostname = js ''a.example'', port = [], pathname = js ''/loop'',
             search = [], hash = []\<rparr>
      else if s = js ''http://b.example/v.mp4'' then
        Inr \<lparr>protocol = js ''http:'', username = [], password = [],
             hostname = js ''b.example'', port = [], pathname = js ''/v.mp4'',
             search = [], hash = []\<rparr>
      else if s = js ''ftp://files.example/v.mp4'' then
        Inr \<lparr>protocol = js ''ftp:'', username = [], password = [],
             hostname = js ''files.example'', port = [], pathname = js ''/v.mp4'',
             search = [], hash = []\<rparr>
      else if s = js ''http://down.example/v.mp4'' then
        Inr \<lparr>protocol = js ''http:'', username = [], password = [],
             hostname = js ''down.example'', port = [], pathname = js ''/v.mp4'',
             search = [], hash = []\<rparr>
      else if s = js ''https://user:pw@c.example:8443/p/v.mp4?t=1#frag'' then
        Inr \<lparr>protocol = js ''https:'', username = js ''user'', password = js ''pw'',
             hostname = js ''c.example'', port = js ''8443'', pathname = js ''/p/v.mp4'',
             search = js ''?t=1'', hash = js ''#frag''\<rparr>
      else if s = js ''http://h.example/a/b'' then
        Inr \<lparr>protocol = js ''http:'', username = [], password = [],
             hostname = js ''h.example'', port = [], pathname = js ''/a/b'',
             search = [], hash = []\<rparr>
      else if s = js ''http://h.example/a%2Fb'' then
        Inr \<lparr>protocol = js ''http:'', username = [], password = [],
             hostname = js ''h.example'', port = [], pathname = js ''/a%2Fb'',
             search = [], hash = []\<rparr>
      else if s = js ''http://e.example/v.mp4'' then
        Inr \<lparr>protocol = js ''http:'', username = [], password = [],
             hostname = js ''e.example'', port = [], pathname = js ''/v.mp4'',
             search = [], hash = []\<rparr>
      else if s = js ''http://odd.example/v.mp4'' then
        Inr \<lparr>protocol = js ''http:'', username = [], password = [],
             hostname = js ''odd.example'', port = [], pathname = js ''/v.mp4'',
             search = [], hash = []\<rparr>
      else if s = js ''http://slow.example/v.mp4'' then
        Inr \<lparr>protocol = js ''http:'', username = [], password = [],
             hostname = js ''slow.example'', port = [], pathname = js ''/v.mp4'',
             search = [], hash = []\<rparr>
      else if s = js ''http://cut.example/v.mp4'' then
        Inr \<lparr>protocol = js ''http:'', username = [], password = [],
             hostname = js ''cut.example'', port = [], pathname = js ''/v.mp4'',
             search = [], hash = []\<rparr>
      else Inl TypeError)"

definition example_request :: "client \<Rightarrow> opts \<Rightarrow> js_error + request_event" where
  "example_request c options =
     (if opts_hostname options = js ''a.example'' \<and> opts_path options = js ''/v.mp4'' then
        Inr (ResponseEvent
          \<lparr>statusCode = 302, headers = [(''location'', js ''http://b.example/v.mp4'')],
           body = []\<rparr>)
      else if opts_hostname options = js ''a.example'' then
        Inr (ResponseEvent
          \<lparr>statusCode = 302, headers = [(''location'', js ''http://a.example/loop'')],
           body = []\<rparr>)
      else if opts_hostname options = js ''b.example'' then
        Inr (ResponseEvent
          \<lparr>statusCode = 206,
           headers = [(''content-type'', js ''video/webm''), (''content-length'', js ''3''),
                      (''content-range'', js ''bytes 0-2/10'')],
           body = [0x1A, 0x45, 0xDF]\<rparr>)
      else if opts_hostname options = js ''down.example'' then
        Inr (ErrorEvent (js ''connect ECONNREFUSED''))
      else if opts_hostname options = js ''e.example'' then
        Inr (ResponseEvent
          \<lparr>statusCode = 200, headers = [(''content-type'', []), (''content-range'', [])],
           body = [0x1A]\<rparr>)
      else if opts_hostname options = js ''odd.example'' then
        Inr (ResponseEvent \<lparr>statusCode = 99, headers = [], body = [0x1A]\<rparr>)
      else if opts_hostname options = js ''slow.example'' then
        Inr NoEvent
      else if opts_hostname options = js ''cut.example'' then
        Inr (ResponseThenError
          \<lparr>statusCode = 200, headers = [(''content-length'', js ''1000'')],
           body = [0x1A, 0x45]\<rparr>
          (js ''read ECONNRESET''))
      else Inr (ResponseEvent \<lparr>statusCode = 200, headers = [], body = [0x1A]\<rparr>))"

definition example_runtime :: runtime where
  "example_runtime = \<lparr>URL_new = example_URL, client_request = example_request\<rparr>"

section \<open>Properties\<close>

subsection \<open>Strings\<close>

lemma unat_of_char: "unat (of_char c :: 16 word) = of_char c"
proof -
  have bound: "(of_char c :: nat) < 2 ^ LENGTH(16)"
    by (rule less_trans [OF nat_of_char_less_256]) simp
  have "unat (of_nat (of_char c) :: 16 word) = (of_char c :: nat) mod 2 ^ LENGTH(16)"
    by (rule unat_of_nat)
  also have "\<dots> = of_char c"
    using bound by (rule mod_less)
  finally show ?thesis by (simp only: of_nat_of_char)
qed

lemma js_eq_iff: "js s = js t \<longleftrightarrow> s = t"
proof -
  have "inj (of_char :: char \<Rightarrow> 16 word)"
  proof (rule injI)
    fix c d :: char
    assume "(of_char c :: 16 word) = of_char d"
    then have "unat (of_char c :: 16 word) = unat (of_char d :: 16 word)" by simp
    then show "c = d" by (simp only: unat_of_char of_char_eq_iff)
  qed
  then show ?thesis by (simp add: js_def inj_map_eq_map)
qed

lemma js_Nil: "js s = [] \<longleftrightarrow> s = []"
  by (simp add: js_def)

lemma js_append: "js s @ js t = js (s @ t)"
  by (simp add: js_def)

subsection \<open>Decoding undoes encoding\<close>

lemma unat_octet_of_nat: "x < 256 \<Longrightarrow> unat (of_nat x :: octet) = x"
  by (simp add: unat_of_nat)

lemma unat_unit_of_nat: "x < 65536 \<Longrightarrow> unat (of_nat x :: code_unit) = x"
  by (simp add: unat_of_nat)

lemma unat_octet_less: "unat (b :: octet) < 256"
  using unsigned_less [of b, where 'a = nat] by simp

lemma unat_unit_less: "unat (c :: code_unit) < 65536"
  using unsigned_less [of c, where 'a = nat] by simp

lemma hex_value_hex_char:
  assumes "d < 16"
  shows "hex_value (hex_char d) = Some d"
proof -
  have "d = 0 \<or> d = 1 \<or> d = 2 \<or> d = 3 \<or> d = 4 \<or> d = 5 \<or> d = 6 \<or> d = 7
      \<or> d = 8 \<or> d = 9 \<or> d = 10 \<or> d = 11 \<or> d = 12 \<or> d = 13 \<or> d = 14 \<or> d = 15"
    using assms by arith
  then show ?thesis
    by (elim disjE) (simp_all add: hex_char_def hex_value_def js_def)
qed

lemma escape_octet_percent_hex: "escape_octet (percent_hex b @ rest) = Some (b, rest)"
proof -
  have "unat b div 16 < 16" and "unat b mod 16 < 16"
    using unat_octet_less [of b] by simp_all
  moreover have "16 * (unat b div 16) + unat b mod 16 = unat b"
    by simp
  ultimately show ?thesis
    by (simp add: percent_hex_def hex_value_hex_char)
qed

lemma continuation_octets_percent_hex:
  "continuation_octets (length bs) (concat (map percent_hex bs) @ rest) = Some (bs, rest)"
  by (induction bs) (simp_all add: escape_octet_percent_hex)

lemma unescaped_not_percent: "unescaped c \<Longrightarrow> c \<noteq> 0x25"
  by (auto simp add: unescaped_def js_def)

lemma Decode_unescaped: "unescaped c \<Longrightarrow> Decode (c # rest) = map_sum id ((#) c) (Decode rest)"
  by (simp add: unescaped_not_percent)

lemma Decode_escape:
  "Decode (percent_hex b @ rest) =
     (let n = leading_ones b in
      if n = 0 then map_sum id ((#) (ucast b)) (Decode rest)
      else if n = 1 \<or> 4 < n then Inl URIError
      else
        (case continuation_octets (n - 1) rest of
           None \<Rightarrow> Inl URIError
         | Some (bs, rest') \<Rightarrow>
             (case utf8_decode (b # bs) of
                None \<Rightarrow> Inl URIError
              | Some v \<Rightarrow> map_sum id ((@) (utf16_encode_code_point v)) (Decode rest'))))"
proof -
  obtain h l where ph: "percent_hex b = [0x25, h, l]"
    by (simp add: percent_hex_def)
  have "escape_octet (0x25 # h # l # rest) = Some (b, rest)"
    using escape_octet_percent_hex [of b rest] ph by simp
  then show ?thesis
    unfolding ph by (simp del: escape_octet.simps)
qed

lemma leading_ones_of_nat:
  "x < 256 \<Longrightarrow> leading_ones (of_nat x) =
     (if x < 0x80 then 0 else if x < 0xC0 then 1 else if x < 0xE0 then 2
      else if x < 0xF0 then 3 else if x < 0xF8 then 4 else 5)"
  by (simp add: leading_ones_def word_less_nat_alt unat_octet_of_nat)

lemma is_continuation_of_nat:
  "x < 256 \<Longrightarrow> is_continuation (of_nat x) \<longleftrightarrow> 0x80 \<le> x \<and> x < 0xC0"
  by (simp add: is_continuation_def word_less_nat_alt word_le_nat_alt unat_octet_of_nat)

lemma low_bits_of_nat: "x < 256 \<Longrightarrow> low_bits n (of_nat x) = x mod 2 ^ n"
  by (simp add: low_bits_def unat_octet_of_nat)

lemma ucast_octet_of_nat: "x < 256 \<Longrightarrow> (ucast (of_nat x :: octet) :: code_unit) = of_nat x"
  using of_nat_unat [of "of_nat x :: octet", where 'a = code_unit]
  by (simp add: unat_octet_of_nat)

lemma append_single: "(@) [x] = (#) x"
  by (rule ext) simp

lemma Decode_one_octet:
  assumes "v < 0x80"
  shows "Decode (concat (map percent_hex (utf8_encode v)) @ rest) =
           map_sum id ((@) (utf16_encode_code_point v)) (Decode rest)"
proof -
  from assms have "leading_ones (of_nat v) = 0"
    by (simp add: leading_ones_of_nat)
  moreover from assms have "(ucast (of_nat v :: octet) :: code_unit) = of_nat v"
    by (simp add: ucast_octet_of_nat)
  ultimately show ?thesis
    using assms Decode_escape [of "of_nat v" rest]
    by (simp add: utf8_encode_def utf16_encode_code_point_def append_single)
qed

lemma mod_above_128: "(0x80 + k mod 0x40) mod 0x40 = k mod (0x40 :: nat)"
proof -
  have "(0x80 + k mod 0x40) mod 0x40 = (2 * 0x40 + k mod 0x40) mod (0x40 :: nat)"
    by simp
  also have "\<dots> = (k mod 0x40) mod 0x40"
    by (simp only: mod_mult_self3)
  also have "\<dots> = k mod 0x40"
    by simp
  finally show ?thesis .
qed

text \<open>A continuation octet carries six bits.\<close>

lemma continuation_octet:
  fixes k :: nat
  defines "b \<equiv> (of_nat (0x80 + k mod 0x40) :: octet)"
  shows "is_continuation b" and "low_bits 6 b = k mod 0x40"
proof -
  have r: "0x80 + k mod 0x40 < 256"
    by (rule less_trans [of _ "0x80 + 0x40"]) simp_all
  show "is_continuation b"
    unfolding b_def by (simp only: is_continuation_of_nat [OF r]) simp
  show "low_bits 6 b = k mod 0x40"
    unfolding b_def by (simp only: low_bits_of_nat [OF r]) (simp add: mod_above_128)
qed

lemma lead_octet:
  fixes k :: nat
  assumes "k < 2 ^ n" and "m + 2 ^ n < 256" and "2 ^ n dvd m"
  defines "b \<equiv> (of_nat (m + k) :: octet)"
  shows "low_bits n b = k"
proof -
  have r: "m + k < 256"
    using assms by simp
  have "(m + k) mod 2 ^ n = k"
    using assms(1,3) by (simp add: mod_add_left_eq [symmetric] dvd_eq_mod_eq_0)
  then show ?thesis
    unfolding b_def by (simp only: low_bits_of_nat [OF r])
qed

lemma Decode_two_octets:
  assumes "0x80 \<le> v" and "v < 0x800"
  shows "Decode (concat (map percent_hex (utf8_encode v)) @ rest) =
           map_sum id ((@) (utf16_encode_code_point v)) (Decode rest)"
proof -
  define b0 :: octet where "b0 = of_nat (0xC0 + v div 0x40)"
  define b1 :: octet where "b1 = of_nat (0x80 + v mod 0x40)"
  have k0: "v div 0x40 < 32"
    using assms by simp
  have r0: "0xC0 + v div 0x40 < 256"
    using k0 by simp
  have n: "leading_ones b0 = 2"
    unfolding b0_def by (simp only: leading_ones_of_nat [OF r0]) (use k0 in simp)
  have l0: "low_bits 5 b0 = v div 0x40"
    unfolding b0_def by (rule lead_octet) (use k0 in simp_all)
  have c1: "is_continuation b1" and l1: "low_bits 6 b1 = v mod 0x40"
    unfolding b1_def by (rule continuation_octet)+
  have "v div 0x40 * 0x40 + v mod 0x40 = v"
    by simp
  then have d: "utf8_decode [b0, b1] = Some v"
    using assms(1) by (simp add: l0 l1 c1)
  have "Decode (percent_hex b0 @ percent_hex b1 @ rest) =
          map_sum id ((@) (utf16_encode_code_point v)) (Decode rest)"
    unfolding Decode_escape [of b0]
    by (simp add: n d escape_octet_percent_hex del: utf8_decode.simps)
  moreover have "utf8_encode v = [b0, b1]"
    using assms by (simp add: utf8_encode_def b0_def b1_def)
  ultimately show ?thesis
    by simp
qed

lemma split_three:
  "v div 0x1000 * 0x1000 + v div 0x40 mod 0x40 * 0x40 + v mod 0x40 = (v :: nat)"
proof -
  have regroup: "a * 0x1000 + b * 0x40 = (a * 0x40 + b) * 0x40" for a b :: nat
    by simp
  have "v div 0x1000 = v div 0x40 div 0x40"
    by (simp add: div_mult2_eq [symmetric])
  then have "v div 0x1000 * 0x1000 + v div 0x40 mod 0x40 * 0x40 =
               (v div 0x40 div 0x40 * 0x40 + v div 0x40 mod 0x40) * 0x40"
    by (simp only: regroup)
  also have "\<dots> = v div 0x40 * 0x40"
    by (simp only: div_mult_mod_eq)
  finally show ?thesis
    by (simp only: div_mult_mod_eq)
qed

lemma split_four:
  "v div 0x40000 * 0x40000 + v div 0x1000 mod 0x40 * 0x1000 + v div 0x40 mod 0x40 * 0x40
     + v mod 0x40 = (v :: nat)"
proof -
  have regroup: "a * 0x40000 + b * 0x1000 = (a * 0x40 + b) * 0x1000" for a b :: nat
    by simp
  have "v div 0x40000 = v div 0x1000 div 0x40"
    by (simp add: div_mult2_eq [symmetric])
  then have "v div 0x40000 * 0x40000 + v div 0x1000 mod 0x40 * 0x1000 =
               (v div 0x1000 div 0x40 * 0x40 + v div 0x1000 mod 0x40) * 0x1000"
    by (simp only: regroup)
  also have "\<dots> = v div 0x1000 * 0x1000"
    by (simp only: div_mult_mod_eq)
  finally show ?thesis
    by (simp only: split_three)
qed

lemma Decode_three_octets:
  assumes "0x800 \<le> v" and "v < 0x10000" and "\<not> (0xD800 \<le> v \<and> v \<le> 0xDFFF)"
  shows "Decode (concat (map percent_hex (utf8_encode v)) @ rest) =
           map_sum id ((@) (utf16_encode_code_point v)) (Decode rest)"
proof -
  define b0 :: octet where "b0 = of_nat (0xE0 + v div 0x1000)"
  define b1 :: octet where "b1 = of_nat (0x80 + v div 0x40 mod 0x40)"
  define b2 :: octet where "b2 = of_nat (0x80 + v mod 0x40)"
  have k0: "v div 0x1000 < 16"
    using assms by simp
  have r0: "0xE0 + v div 0x1000 < 256"
    using k0 by simp
  have n: "leading_ones b0 = 3"
    unfolding b0_def by (simp only: leading_ones_of_nat [OF r0]) (use k0 in simp)
  have c: "continuation_octets 2 (percent_hex b1 @ percent_hex b2 @ rest) =
             Some ([b1, b2], rest)"
    by (simp add: eval_nat_numeral escape_octet_percent_hex)
  have l0: "low_bits 4 b0 = v div 0x1000"
    unfolding b0_def by (rule lead_octet) (use k0 in simp_all)
  have c1: "is_continuation b1" and l1: "low_bits 6 b1 = v div 0x40 mod 0x40"
    unfolding b1_def by (rule continuation_octet)+
  have c2: "is_continuation b2" and l2: "low_bits 6 b2 = v mod 0x40"
    unfolding b2_def by (rule continuation_octet)+
  have d: "utf8_decode [b0, b1, b2] = Some v"
    using assms(1,3) by (simp add: l0 l1 l2 c1 c2 split_three)
  have "Decode (percent_hex b0 @ percent_hex b1 @ percent_hex b2 @ rest) =
          map_sum id ((@) (utf16_encode_code_point v)) (Decode rest)"
    unfolding Decode_escape [of b0]
    by (simp add: n c d del: utf8_decode.simps)
  moreover have "utf8_encode v = [b0, b1, b2]"
    using assms by (simp add: utf8_encode_def b0_def b1_def b2_def)
  ultimately show ?thesis
    by simp
qed

lemma Decode_four_octets:
  assumes "0x10000 \<le> v" and "v \<le> 0x10FFFF"
  shows "Decode (concat (map percent_hex (utf8_encode v)) @ rest) =
           map_sum id ((@) (utf16_encode_code_point v)) (Decode rest)"
proof -
  define b0 :: octet where "b0 = of_nat (0xF0 + v div 0x40000)"
  define b1 :: octet where "b1 = of_nat (0x80 + v div 0x1000 mod 0x40)"
  define b2 :: octet where "b2 = of_nat (0x80 + v div 0x40 mod 0x40)"
  define b3 :: octet where "b3 = of_nat (0x80 + v mod 0x40)"
  have k0: "v div 0x40000 < 8"
    using assms by simp
  have r0: "0xF0 + v div 0x40000 < 256"
    using k0 by simp
  have n: "leading_ones b0 = 4"
    unfolding b0_def by (simp only: leading_ones_of_nat [OF r0]) (use k0 in simp)
  have c: "continuation_octets 3 (percent_hex b1 @ percent_hex b2 @ percent_hex b3 @ rest) =
             Some ([b1, b2, b3], rest)"
    by (simp add: eval_nat_numeral escape_octet_percent_hex)
  have l0: "low_bits 3 b0 = v div 0x40000"
    unfolding b0_def by (rule lead_octet) (use k0 in simp_all)
  have c1: "is_continuation b1" and l1: "low_bits 6 b1 = v div 0x1000 mod 0x40"
    unfolding b1_def by (rule continuation_octet)+
  have c2: "is_continuation b2" and l2: "low_bits 6 b2 = v div 0x40 mod 0x40"
    unfolding b2_def by (rule continuation_octet)+
  have c3: "is_continuation b3" and l3: "low_bits 6 b3 = v mod 0x40"
    unfolding b3_def by (rule continuation_octet)+
  have d: "utf8_decode [b0, b1, b2, b3] = Some v"
    using assms by (simp add: l0 l1 l2 l3 c1 c2 c3 split_four)
  have "Decode (percent_hex b0 @ percent_hex b1 @ percent_hex b2 @ percent_hex b3 @ rest) =
          map_sum id ((@) (utf16_encode_code_point v)) (Decode rest)"
    unfolding Decode_escape [of b0]
    by (simp add: n c d del: utf8_decode.simps)
  moreover have "utf8_encode v = [b0, b1, b2, b3]"
    using assms by (simp add: utf8_encode_def b0_def b1_def b2_def b3_def)
  ultimately show ?thesis
    by simp
qed

lemma Decode_code_point:
  assumes "v \<le> 0x10FFFF" and "\<not> (0xD800 \<le> v \<and> v \<le> 0xDFFF)"
  shows "Decode (concat (map percent_hex (utf8_encode v)) @ rest) =
           map_sum id ((@) (utf16_encode_code_point v)) (Decode rest)"
proof -
  consider "v < 0x80" | "0x80 \<le> v" "v < 0x800" | "0x800 \<le> v" "v < 0x10000"
    | "0x10000 \<le> v"
    by linarith
  then show ?thesis
  proof cases
    case 1
    then show ?thesis by (rule Decode_one_octet)
  next
    case 2
    then show ?thesis by (rule Decode_two_octets)
  next
    case 3
    then show ?thesis using assms(2) by (rule Decode_three_octets)
  next
    case 4
    then show ?thesis using assms(1) by (rule Decode_four_octets)
  qed
qed

lemma map_sum_Inr_iff: "map_sum id f x = Inr e \<longleftrightarrow> (\<exists>e'. x = Inr e' \<and> e = f e')"
  by (cases x) auto

lemma utf16_unit:
  "utf16_encode_code_point (unat (c :: code_unit)) = [c]"
  using unat_unit_less [of c] by (simp add: utf16_encode_code_point_def)

lemma surrogate_pair_range:
  assumes "is_leading_surrogate c" and "is_trailing_surrogate d"
  shows "0x10000 \<le> surrogate_pair_to_code_point c d"
    and "surrogate_pair_to_code_point c d \<le> 0x10FFFF"
  using assms
  by (simp_all add: is_leading_surrogate_def is_trailing_surrogate_def
        surrogate_pair_to_code_point_def word_le_nat_alt) arith

lemma utf16_pair:
  assumes "is_leading_surrogate c" and "is_trailing_surrogate d"
  shows "utf16_encode_code_point (surrogate_pair_to_code_point c d) = [c, d]"
proof -
  have c: "0xD800 \<le> unat c" "unat c \<le> 0xDBFF" and d: "0xDC00 \<le> unat d" "unat d \<le> 0xDFFF"
    using assms
    by (simp_all add: is_leading_surrogate_def is_trailing_surrogate_def word_le_nat_alt)
  define x where "x = unat c - 0xD800"
  define y where "y = unat d - 0xDC00"
  have y: "y < 0x400"
    using d by (simp add: y_def)
  have v: "surrogate_pair_to_code_point c d - 0x10000 = x * 0x400 + y"
    by (simp add: surrogate_pair_to_code_point_def x_def y_def)
  have "(x * 0x400 + y) div 0x400 = x" and "(x * 0x400 + y) mod 0x400 = y"
    using y by simp_all
  then have "utf16_encode_code_point (surrogate_pair_to_code_point c d) =
               [of_nat (x + 0xD800), of_nat (y + 0xDC00)]"
    using surrogate_pair_range [OF assms] by (simp add: utf16_encode_code_point_def v)
  moreover have "x + 0xD800 = unat c" and "y + 0xDC00 = unat d"
    using c d by (simp_all add: x_def y_def)
  ultimately show ?thesis
    by simp
qed

lemma Decode_Encode:
  "Encode s = Inr e \<Longrightarrow> Decode e = Inr s"
proof (induction s arbitrary: e rule: Encode.induct)
  case 1
  then show ?case by simp
next
  case (2 c cs)
  show ?case
  proof (cases "unescaped c")
    case True
    with "2.prems" obtain e' where e': "Encode cs = Inr e'" "e = c # e'"
      by (auto simp add: map_sum_Inr_iff)
    with True "2.IH"(1) show ?thesis
      by (simp add: Decode_unescaped del: Decode.simps)
  next
    case False
    note not_unescaped = this
    show ?thesis
    proof (cases "is_trailing_surrogate c")
      case True
      with not_unescaped "2.prems" show ?thesis by simp
    next
      case False
      note not_trailing = this
      show ?thesis
      proof (cases "is_leading_surrogate c")
        case True
        with not_unescaped not_trailing "2.prems"
        obtain d ds e' where cs: "cs = d # ds" and d: "is_trailing_surrogate d"
          and e': "Encode ds = Inr e'"
            "e = concat (map percent_hex (utf8_encode (surrogate_pair_to_code_point c d))) @ e'"
          by (auto simp add: map_sum_Inr_iff split: list.splits if_splits)
        have "Decode e' = Inr ds"
          using "2.IH"(2) [OF not_unescaped not_trailing True cs d e'(1)] .
        moreover have "\<not> (0xD800 \<le> surrogate_pair_to_code_point c d
                          \<and> surrogate_pair_to_code_point c d \<le> 0xDFFF)"
          using surrogate_pair_range(1) [OF True d] by simp
        ultimately show ?thesis
          using Decode_code_point [OF surrogate_pair_range(2) [OF True d], of e']
            utf16_pair [OF True d]
          by (simp add: e'(2) cs del: Decode.simps)
      next
        case False
        with not_unescaped not_trailing "2.prems"
        obtain e' where e': "Encode cs = Inr e'"
            "e = concat (map percent_hex (utf8_encode (unat c))) @ e'"
          by (auto simp add: map_sum_Inr_iff)
        have "Decode e' = Inr cs"
          using "2.IH"(3) [OF not_unescaped not_trailing False e'(1)] .
        moreover have "unat c \<le> 0x10FFFF"
          using unat_unit_less [of c] by simp
        moreover have "\<not> (0xD800 \<le> unat c \<and> unat c \<le> 0xDFFF)"
          using not_trailing False
          by (auto simp add: is_leading_surrogate_def is_trailing_surrogate_def word_le_nat_alt)
        ultimately show ?thesis
          using Decode_code_point [of "unat c" e'] utf16_unit [of c]
          by (simp add: e'(2) del: Decode.simps)
      qed
    qed
  qed
qed

lemma decodeURIComponent_encodeURIComponent:
  "encodeURIComponent s = Inr e \<Longrightarrow> decodeURIComponent e = Inr s"
  by (simp add: encodeURIComponent_def decodeURIComponent_def Decode_Encode)

lemma hex_char_not_plus: "hex_char d \<noteq> 0x2B"
proof -
  have "hex_char d \<in> set (js ''0123456789ABCDEF'')"
    unfolding hex_char_def by (rule nth_mem) (simp add: js_def)
  then show ?thesis
    by (auto simp add: js_def)
qed

lemma percent_hex_no_plus: "0x2B \<notin> set (percent_hex b)"
  by (simp add: percent_hex_def hex_char_not_plus [symmetric])

lemma map_replace_absent: "x \<notin> set e \<Longrightarrow> map (\<lambda>c. if c = x then y else c) e = e"
  by (induction e) auto

lemma unescaped_not_plus: "unescaped c \<Longrightarrow> c \<noteq> 0x2B"
  by (auto simp add: unescaped_def js_def)

lemma Encode_no_plus: "Encode s = Inr e \<Longrightarrow> 0x2B \<notin> set e"
proof (induction s arbitrary: e rule: Encode.induct)
  case 1
  then show ?case by simp
next
  case (2 c cs)
  then show ?case
    by (auto simp add: map_sum_Inr_iff percent_hex_no_plus dest: unescaped_not_plus
          split: if_splits list.splits)
qed

lemma query_value_encodeURIComponent:
  assumes "encodeURIComponent s = Inr e"
  shows "query_value e = s"
proof -
  from assms have e: "Encode s = Inr e"
    by (simp add: encodeURIComponent_def)
  then have "map (\<lambda>c. if c = 0x2B then 0x20 else c) e = e"
    using Encode_no_plus [OF e] by (intro map_replace_absent)
  with Decode_Encode [OF e] show ?thesis
    by (simp add: query_value_def decodeURIComponent_def)
qed

lemma Decode_no_percent: "0x25 \<notin> set s \<Longrightarrow> Decode s = Inr s"
  by (induction s) auto

subsection \<open>The handler\<close>

lemma Encode_latin1:
  assumes "\<forall>c \<in> set s. c < 0x100"
  shows "\<exists>enc. Encode s = Inr enc"
  using assms
proof (induction s)
  case Nil
  show ?case by simp
next
  case (Cons c cs)
  then obtain enc where enc: "Encode cs = Inr enc" by auto
  from Cons.prems have "c < 0x100" by simp
  then have "\<not> is_trailing_surrogate c" "\<not> is_leading_surrogate c"
    by (simp_all add: is_trailing_surrogate_def is_leading_surrogate_def
          word_less_nat_alt word_le_nat_alt)
  with enc show ?case by simp
qed

lemma video_proxy_requested:
  assumes "query_url r = Some u" and "u \<noteq> []"
    and "decodeURIComponent u = Inr d" and "URL_new rt d = Inr parsed"
    and "client_request rt (select_client parsed) (make_opts parsed r) = Inr ev"
  shows "video_proxy rt r =
           Inr \<lparr>inbound = on_event ev,
                outbound = [(select_client parsed, make_opts parsed r)]\<rparr>"
  using assms by (simp add: video_proxy_def when_truthy_def truthy_def try_block_def)

lemma video_proxy_thrown:
  assumes "query_url r = Some u"
    and "try_block rt r u = Inl e"
  shows "video_proxy rt r = Inr \<lparr>inbound = Answered (End 400), outbound = []\<rparr>"
  using assms by (simp add: video_proxy_def when_truthy_def)

lemma on_response_redirect:
  assumes "statusCode p \<in> {301, 302, 307, 308}" and "map_of (headers p) ''location'' = Some l"
    and "l \<noteq> []" and "encodeURIComponent l = Inr enc"
  shows "on_response p = Inr (Redirect (js ''/video-proxy?url='' @ enc))"
  using assms by (auto simp add: on_response_def redirect_location_def when_truthy_def truthy_def)

lemma redirect_location_None:
  "redirect_location p = None \<longleftrightarrow>
     \<not> (statusCode p \<in> {301, 302, 307, 308}
        \<and> (\<exists>l. map_of (headers p) ''location'' = Some l \<and> l \<noteq> []))"
  by (auto simp add: redirect_location_def when_truthy_def truthy_def split: option.splits)

lemma redirect_location_Some:
  "redirect_location p = Some l \<longleftrightarrow>
     statusCode p \<in> {301, 302, 307, 308} \<and> map_of (headers p) ''location'' = Some l \<and> l \<noteq> []"
  by (auto simp add: redirect_location_def when_truthy_def truthy_def split: option.splits)

lemma on_response_content:
  assumes "\<not> (statusCode p \<in> {301, 302, 307, 308} \<and> (\<exists>l. map_of (headers p) ''location'' = Some l \<and> l \<noteq> []))"
    and "100 \<le> statusCode p" and "statusCode p \<le> 999"
  shows "on_response p = Inr (Pipe (statusCode p) (content_headers p) (body p))"
proof -
  from assms(1) have "redirect_location p = None"
    by (simp add: redirect_location_None)
  with assms(2,3) show ?thesis by (simp add: on_response_def)
qed

lemma on_response_status_throws:
  assumes "\<not> (statusCode p \<in> {301, 302, 307, 308} \<and> (\<exists>l. map_of (headers p) ''location'' = Some l \<and> l \<noteq> []))"
    and "statusCode p < 100 \<or> 999 < statusCode p"
  shows "on_response p = Inl RangeError"
proof -
  from assms(1) have "redirect_location p = None"
    by (simp add: redirect_location_None)
  with assms(2) show ?thesis by (simp add: on_response_def)
qed

lemma on_response_throws_iff:
  "on_response p = Inl e \<longleftrightarrow>
     (\<exists>l. statusCode p \<in> {301, 302, 307, 308} \<and> map_of (headers p) ''location'' = Some l
          \<and> l \<noteq> [] \<and> encodeURIComponent l = Inl e)
     \<or> (\<not> (statusCode p \<in> {301, 302, 307, 308}
            \<and> (\<exists>l. map_of (headers p) ''location'' = Some l \<and> l \<noteq> []))
         \<and> (statusCode p < 100 \<or> 999 < statusCode p) \<and> e = RangeError)"
proof (cases "redirect_location p")
  case None
  then show ?thesis
    using redirect_location_None [of p] by (auto simp add: on_response_def)
next
  case (Some l)
  then have l: "statusCode p \<in> {301, 302, 307, 308}" "map_of (headers p) ''location'' = Some l"
    "l \<noteq> []"
    by (simp_all add: redirect_location_Some)
  have "on_response p = Inl e \<longleftrightarrow> encodeURIComponent l = Inl e"
    using Some by (simp add: on_response_def split: sum.splits)
  with l show ?thesis by auto
qed

lemma content_headers_lookup:
  "map_of (content_headers p) ''Content-Type'' =
     Some (case map_of (headers p) ''content-type'' of
             Some v \<Rightarrow> if v = [] then js ''video/mp4'' else v
           | None \<Rightarrow> js ''video/mp4'')"
  "map_of (content_headers p) ''Accept-Ranges'' = Some (js ''bytes'')"
  "map_of (content_headers p) ''Content-Length'' =
     (case map_of (headers p) ''content-length'' of
        Some v \<Rightarrow> if v = [] then None else Some v
      | None \<Rightarrow> None)"
  "map_of (content_headers p) ''Content-Range'' =
     (case map_of (headers p) ''content-range'' of
        Some v \<Rightarrow> if v = [] then None else Some v
      | None \<Rightarrow> None)"
  by (simp_all add: content_headers_def Let_def or_else_def when_truthy_def truthy_def
        update_conv' split: option.splits)

lemma content_headers_names:
  "fst ` set (content_headers p) \<subseteq>
     {''Content-Type'', ''Accept-Ranges'', ''Content-Length'', ''Content-Range''}"
  by (auto simp add: content_headers_def Let_def  split: option.splits if_splits)

lemma make_opts_headers:
  "map_of (opts_headers (make_opts parsed r)) ''User-Agent'' = Some (js ''Mozilla/5.0'')"
  "map_of (opts_headers (make_opts parsed r)) ''Accept'' = Some (js ''*/*'')"
  "map_of (opts_headers (make_opts parsed r)) ''Accept-Encoding'' = Some (js ''identity'')"
  "map_of (opts_headers (make_opts parsed r)) ''Range'' =
     (case headers_range r of Some v \<Rightarrow> if v = [] then None else Some v | None \<Rightarrow> None)"
  by (simp_all add: make_opts_def Let_def when_truthy_def truthy_def update_conv'
        split: option.splits)

lemma make_opts_header_names:
  "fst ` set (opts_headers (make_opts parsed r)) \<subseteq>
     {''User-Agent'', ''Accept'', ''Accept-Encoding'', ''Range''}"
  by (auto simp add: make_opts_def Let_def when_truthy_def split: option.splits if_splits)

lemma make_opts_fields:
  "opts_hostname (make_opts parsed r) = hostname parsed"
  "opts_path (make_opts parsed r) = pathname parsed @ search parsed"
  "opts_method (make_opts parsed r) = None"
  "opts_port (make_opts parsed r) =
     (if port parsed \<noteq> [] then PortString (port parsed)
      else PortNumber (if protocol parsed = js ''https:'' then 443 else 80))"
  by (simp_all add: make_opts_def Let_def truthy_def split: option.splits)

lemmas uri_eval =
  decodeURIComponent_def encodeURIComponent_def query_value_def js_def hex_value_def
  leading_ones_def is_continuation_def low_bits_def unescaped_def is_leading_surrogate_def
  is_trailing_surrogate_def utf8_encode_def utf16_encode_code_point_def percent_hex_def
  hex_char_def

lemma on_event_redirect:
  assumes "statusCode p \<in> {301, 302, 307, 308}" and "map_of (headers p) ''location'' = Some l"
    and "l \<noteq> []" and "encodeURIComponent l = Inr enc"
  shows "on_event (ResponseEvent p) = Answered (Redirect (js ''/video-proxy?url='' @ enc))"
  using on_response_redirect [OF assms] by simp

lemma follow_redirect:
  "follow r (js ''/video-proxy?url='' @ enc) =
     Some \<lparr>query_url = Some (query_value enc), headers_range = headers_range r\<rparr>"
  by (simp add: follow_def inbound_request_def js_def)

lemma follow_encoded:
  assumes "encodeURIComponent l = Inr enc"
  shows "follow r (js ''/video-proxy?url='' @ enc) =
           Some \<lparr>query_url = Some l, headers_range = headers_range r\<rparr>"
  using query_value_encodeURIComponent [OF assms] by (simp add: follow_redirect)

lemma try_block_decode_throws:
  "decodeURIComponent u = Inl e \<Longrightarrow> try_block rt r u = Inl e"
  by (simp add: try_block_def)

lemma try_block_URL_throws:
  "decodeURIComponent u = Inr d \<Longrightarrow> URL_new rt d = Inl e \<Longrightarrow> try_block rt r u = Inl e"
  by (simp add: try_block_def)

lemma video_proxy_falsy:
  "query_url r = None \<or> query_url r = Some [] \<Longrightarrow>
     video_proxy rt r = Inr \<lparr>inbound = Answered (End 400), outbound = []\<rparr>"
  by (auto simp add: video_proxy_def when_truthy_def truthy_def)

lemma req_eta: "\<lparr>query_url = query_url r, headers_range = headers_range r\<rparr> = (r :: req)"
  by simp

lemma on_response_not_End: "on_response p \<noteq> Inr (End n)"
  by (simp add: on_response_def split: option.splits sum.splits)

lemma after_response_not_End: "a \<noteq> End n \<Longrightarrow> after_response a \<noteq> End n"
  by (cases a) simp_all

lemma on_event_not_400: "on_event ev \<noteq> Answered (End 400)"
proof (cases ev)
  case (ResponseEvent p)
  then show ?thesis
    using on_response_not_End [of p 400] by (cases "on_response p") simp_all
next
  case (ErrorEvent err)
  then show ?thesis by simp
next
  case NoEvent
  then show ?thesis by simp
next
  case (ResponseThenError p err)
  show ?thesis
  proof (cases "on_response p")
    case (Inl e)
    with ResponseThenError show ?thesis by simp
  next
    case (Inr a)
    then have "a \<noteq> End 400"
      using on_response_not_End [of p 400] by auto
    then have "after_response a \<noteq> End 400"
      by (rule after_response_not_End)
    with ResponseThenError Inr show ?thesis by simp
  qed
qed

lemma make_opts_cong:
  "headers_range r = headers_range r' \<Longrightarrow> make_opts parsed r = make_opts parsed r'"
  by (simp add: make_opts_def)

lemma video_proxy_same_decoding:
  assumes "query_url r = Some u" and "u \<noteq> []"
    and "query_url r' = Some u'" and "u' \<noteq> []"
    and "decodeURIComponent u = decodeURIComponent u'"
    and "headers_range r = headers_range r'"
  shows "video_proxy rt r = video_proxy rt r'"
proof -
  have "try_block rt r u = try_block rt r' u'"
    using assms(5) make_opts_cong [OF assms(6)]
    by (simp add: try_block_def Let_def split: sum.splits)
  then show ?thesis
    using assms(1-4) by (simp add: video_proxy_def when_truthy_def truthy_def)
qed

subsection \<open>The limiter, the callbacks and the middleware\<close>

lemma video_proxy_route_admitted:
  "hits \<le> 100 \<Longrightarrow> video_proxy_route rt hits r = video_proxy rt r"
  by (simp add: video_proxy_route_def videoProxyLimiter_def)

lemma video_proxy_route_limited:
  "100 < hits \<Longrightarrow>
     video_proxy_route rt hits r = Inr \<lparr>inbound = Answered TooManyRequests, outbound = []\<rparr>"
  by (simp add: video_proxy_route_def videoProxyLimiter_def)

lemma chase_limited:
  "\<not> videoProxyLimiter hits \<Longrightarrow>
     chase rt hits later r = Inr \<lparr>inbound = Answered TooManyRequests, outbound = []\<rparr>"
  by (cases later) (simp_all add: video_proxy_route_def)

lemma chase_fixed:
  assumes "video_proxy rt r = Inr \<lparr>inbound = Answered (Redirect target), outbound = out\<rparr>"
    and "follow r target = Some r"
  shows "chase rt hits later r =
           (if list_all videoProxyLimiter (hits # later)
            then Inr \<lparr>inbound = Answered (Redirect target), outbound = out\<rparr>
            else Inr \<lparr>inbound = Answered TooManyRequests, outbound = []\<rparr>)"
proof (induction later arbitrary: hits)
  case Nil
  show ?case using assms(1) by (simp add: video_proxy_route_def)
next
  case (Cons next_hits later)
  show ?case
  proof (cases "videoProxyLimiter hits")
    case True
    then show ?thesis
      using assms Cons.IH [of next_hits] by (simp add: video_proxy_route_def)
  next
    case False
    then show ?thesis by (simp add: chase_limited del: chase.simps)
  qed
qed

lemma chase_step:
  assumes "video_proxy rt r = Inr \<lparr>inbound = Answered (Redirect target), outbound = out\<rparr>"
    and "follow r target = Some r'"
    and "videoProxyLimiter hits"
  shows "chase rt hits (next_hits # later) r = chase rt next_hits later r'"
  using assms by (simp add: video_proxy_route_def)

lemma try_block_request_throws:
  "decodeURIComponent u = Inr d \<Longrightarrow> URL_new rt d = Inr parsed \<Longrightarrow>
     client_request rt (select_client parsed) (make_opts parsed r) = Inl e \<Longrightarrow>
     try_block rt r u = Inl e"
  by (simp add: try_block_def)

lemma on_event_throws_iff:
  "on_event ev = CallbackThrew e \<longleftrightarrow>
     (\<exists>p. (ev = ResponseEvent p \<or> (\<exists>err. ev = ResponseThenError p err))
          \<and> on_response p = Inl e)"
proof (cases ev)
  case (ResponseEvent p)
  then show ?thesis by (cases "on_response p") auto
next
  case (ErrorEvent err)
  then show ?thesis by simp
next
  case NoEvent
  then show ?thesis by simp
next
  case (ResponseThenError p err)
  then show ?thesis by (cases "on_response p") auto
qed

lemma uncaught_video_proxy_iff:
  "uncaught (video_proxy rt r) = Some e \<longleftrightarrow>
     (\<exists>u d parsed ev. query_url r = Some u \<and> u \<noteq> [] \<and> decodeURIComponent u = Inr d
        \<and> URL_new rt d = Inr parsed
        \<and> client_request rt (select_client parsed) (make_opts parsed r) = Inr ev
        \<and> on_event ev = CallbackThrew e)"
proof (cases "when_truthy (query_url r)")
  case None
  then have "video_proxy rt r = Inr \<lparr>inbound = Answered (End 400), outbound = []\<rparr>"
    by (simp add: video_proxy_def)
  moreover from None have "\<not> (\<exists>u. query_url r = Some u \<and> u \<noteq> [])"
    by (auto simp add: when_truthy_def truthy_def split: option.splits if_splits)
  ultimately show ?thesis by (auto simp add: uncaught_def)
next
  case (Some u)
  then have u: "query_url r = Some u" "u \<noteq> []"
    by (auto simp add: when_truthy_def truthy_def split: option.splits if_splits)
  show ?thesis
  proof (cases "try_block rt r u")
    case (Inl err)
    with Some have "video_proxy rt r = Inr \<lparr>inbound = Answered (End 400), outbound = []\<rparr>"
      by (simp add: video_proxy_def)
    moreover from Inl have "\<not> (\<exists>d parsed ev. decodeURIComponent u = Inr d
        \<and> URL_new rt d = Inr parsed
        \<and> client_request rt (select_client parsed) (make_opts parsed r) = Inr ev)"
      by (auto simp add: try_block_def Let_def)
    ultimately show ?thesis using u by (auto simp add: uncaught_def)
  next
    case (Inr triple)
    then obtain d parsed ev where run: "decodeURIComponent u = Inr d" "URL_new rt d = Inr parsed"
      "client_request rt (select_client parsed) (make_opts parsed r) = Inr ev"
      by (auto simp add: try_block_def Let_def split: sum.splits)
    from video_proxy_requested [OF u run]
    have "uncaught (video_proxy rt r) = Some e \<longleftrightarrow> on_event ev = CallbackThrew e"
      by (auto simp add: uncaught_def split: inbound_outcome.splits)
    with u run show ?thesis by auto
  qed
qed

lemma compression_Filtered: "compression zlib Filtered (h, b) = (h, b)"
  by (simp add: compression_def)

lemma compression_NotEncoded:
  "compression zlib NotEncoded (h, b) = (AList.update ''Vary'' (js ''Accept-Encoding'') h, b)"
  by (simp add: compression_def)

lemma compression_Encoded:
  "\<exists>h'. compression zlib (Encoded coding) (h, b) = (h', zlib coding b)
        \<and> map_of h' ''Content-Length'' = None
        \<and> map_of h' ''Content-Encoding'' = Some coding
        \<and> map_of h' ''Content-Type'' = map_of h ''Content-Type''
        \<and> map_of h' ''Accept-Ranges'' = map_of h ''Accept-Ranges''
        \<and> map_of h' ''Content-Range'' = map_of h ''Content-Range''"
  by (simp add: compression_def update_conv' delete_conv')

subsection \<open>Evaluations in the example runtime\<close>

lemma example_request_a:
  assumes "opts_hostname options = js ''a.example''" and "opts_path options = js ''/v.mp4''"
  shows "client_request example_runtime c options =
           Inr (ResponseEvent
             \<lparr>statusCode = 302, headers = [(''location'', js ''http://b.example/v.mp4'')],
              body = []\<rparr>)"
  using assms by (simp add: example_runtime_def example_request_def)

lemma example_request_loop:
  assumes "opts_hostname options = js ''a.example''" and "opts_path options = js ''/loop''"
  shows "client_request example_runtime c options =
           Inr (ResponseEvent
             \<lparr>statusCode = 302, headers = [(''location'', js ''http://a.example/loop'')],
              body = []\<rparr>)"
  using assms by (simp add: example_runtime_def example_request_def js_eq_iff)

lemma example_request_b:
  assumes "opts_hostname options = js ''b.example''"
  shows "client_request example_runtime c options =
           Inr (ResponseEvent
             \<lparr>statusCode = 206,
              headers = [(''content-type'', js ''video/webm''), (''content-length'', js ''3''),
                         (''content-range'', js ''bytes 0-2/10'')],
              body = [0x1A, 0x45, 0xDF]\<rparr>)"
  using assms by (simp add: example_runtime_def example_request_def js_eq_iff)

lemma example_request_down:
  assumes "opts_hostname options = js ''down.example''"
  shows "client_request example_runtime c options = Inr (ErrorEvent (js ''connect ECONNREFUSED''))"
  using assms by (simp add: example_runtime_def example_request_def js_eq_iff)

lemma example_request_e:
  assumes "opts_hostname options = js ''e.example''"
  shows "client_request example_runtime c options =
           Inr (ResponseEvent
             \<lparr>statusCode = 200, headers = [(''content-type'', []), (''content-range'', [])],
              body = [0x1A]\<rparr>)"
  using assms by (simp add: example_runtime_def example_request_def js_eq_iff)

lemma example_request_odd:
  assumes "opts_hostname options = js ''odd.example''"
  shows "client_request example_runtime c options =
           Inr (ResponseEvent \<lparr>statusCode = 99, headers = [], body = [0x1A]\<rparr>)"
  using assms by (simp add: example_runtime_def example_request_def js_eq_iff)

lemma example_request_slow:
  assumes "opts_hostname options = js ''slow.example''"
  shows "client_request example_runtime c options = Inr NoEvent"
  using assms by (simp add: example_runtime_def example_request_def js_eq_iff)

lemma example_request_cut:
  assumes "opts_hostname options = js ''cut.example''"
  shows "client_request example_runtime c options =
           Inr (ResponseThenError
             \<lparr>statusCode = 200, headers = [(''content-length'', js ''1000'')],
              body = [0x1A, 0x45]\<rparr>
             (js ''read ECONNRESET''))"
  using assms by (simp add: example_runtime_def example_request_def js_eq_iff)

lemma example_request_other:
  assumes "opts_hostname options = js h"
    and "h \<notin> {''a.example'', ''b.example'', ''down.example'', ''e.example'',
               ''odd.example'', ''slow.example'', ''cut.example''}"
  shows "client_request example_runtime c options =
           Inr (ResponseEvent \<lparr>statusCode = 200, headers = [], body = [0x1A]\<rparr>)"
  using assms by (simp add: example_runtime_def example_request_def js_eq_iff)

lemma example_URL_simps:
  "URL_new example_runtime (js ''http://a.example/v.mp4'') =
     Inr \<lparr>protocol = js ''http:'', username = [], password = [],
          hostname = js ''a.example'', port = [], pathname = js ''/v.mp4'',
          search = [], hash = []\<rparr>"
  "URL_new example_runtime (js ''http://a.example/loop'') =
     Inr \<lparr>protocol = js ''http:'', username = [], password = [],
          hostname = js ''a.example'', port = [], pathname = js ''/loop'',
          search = [], hash = []\<rparr>"
  "URL_new example_runtime (js ''http://b.example/v.mp4'') =
     Inr \<lparr>protocol = js ''http:'', username = [], password = [],
          hostname = js ''b.example'', port = [], pathname = js ''/v.mp4'',
          search = [], hash = []\<rparr>"
  "URL_new example_runtime (js ''ftp://files.example/v.mp4'') =
     Inr \<lparr>protocol = js ''ftp:'', username = [], password = [],
          hostname = js ''files.example'', port = [], pathname = js ''/v.mp4'',
          search = [], hash = []\<rparr>"
  "URL_new example_runtime (js ''http://down.example/v.mp4'') =
     Inr \<lparr>protocol = js ''http:'', username = [], password = [],
          hostname = js ''down.example'', port = [], pathname = js ''/v.mp4'',
          search = [], hash = []\<rparr>"
  "URL_new example_runtime (js ''https://user:pw@c.example:8443/p/v.mp4?t=1#frag'') =
     Inr \<lparr>protocol = js ''https:'', username = js ''user'', password = js ''pw'',
          hostname = js ''c.example'', port = js ''8443'', pathname = js ''/p/v.mp4'',
          search = js ''?t=1'', hash = js ''#frag''\<rparr>"
  "URL_new example_runtime (js ''http://h.example/a/b'') =
     Inr \<lparr>protocol = js ''http:'', username = [], password = [],
          hostname = js ''h.example'', port = [], pathname = js ''/a/b'',
          search = [], hash = []\<rparr>"
  "URL_new example_runtime (js ''http://e.example/v.mp4'') =
     Inr \<lparr>protocol = js ''http:'', username = [], password = [],
          hostname = js ''e.example'', port = [], pathname = js ''/v.mp4'',
          search = [], hash = []\<rparr>"
  "URL_new example_runtime (js ''not-a-url'') = Inl TypeError"
  "URL_new example_runtime (js ''http://odd.example/v.mp4'') =
     Inr \<lparr>protocol = js ''http:'', username = [], password = [],
          hostname = js ''odd.example'', port = [], pathname = js ''/v.mp4'',
          search = [], hash = []\<rparr>"
  "URL_new example_runtime (js ''http://slow.example/v.mp4'') =
     Inr \<lparr>protocol = js ''http:'', username = [], password = [],
          hostname = js ''slow.example'', port = [], pathname = js ''/v.mp4'',
          search = [], hash = []\<rparr>"
  "URL_new example_runtime (js ''http://cut.example/v.mp4'') =
     Inr \<lparr>protocol = js ''http:'', username = [], password = [],
          hostname = js ''cut.example'', port = [], pathname = js ''/v.mp4'',
          search = [], hash = []\<rparr>"
  "URL_new example_runtime (js ''http%3A%2F%2Fb.example%2Fv.mp4'') = Inl TypeError"
  by (simp_all add: example_runtime_def example_URL_def js_eq_iff)

lemma example_decode:
  "decodeURIComponent (js ''http://a.example/v.mp4'') = Inr (js ''http://a.example/v.mp4'')"
  "decodeURIComponent (js ''http://a.example/loop'') = Inr (js ''http://a.example/loop'')"
  "decodeURIComponent (js ''http://b.example/v.mp4'') = Inr (js ''http://b.example/v.mp4'')"
  "decodeURIComponent (js ''ftp://files.example/v.mp4'') = Inr (js ''ftp://files.example/v.mp4'')"
  "decodeURIComponent (js ''http://down.example/v.mp4'') = Inr (js ''http://down.example/v.mp4'')"
  "decodeURIComponent (js ''https://user:pw@c.example:8443/p/v.mp4?t=1#frag'') =
     Inr (js ''https://user:pw@c.example:8443/p/v.mp4?t=1#frag'')"
  "decodeURIComponent (js ''http://h.example/a%2Fb'') = Inr (js ''http://h.example/a/b'')"
  "decodeURIComponent (js ''http://e.example/v.mp4'') = Inr (js ''http://e.example/v.mp4'')"
  "decodeURIComponent (js ''not-a-url'') = Inr (js ''not-a-url'')"
  "decodeURIComponent (js ''http://a.example/100%'') = Inl URIError"
  "decodeURIComponent (js ''http://odd.example/v.mp4'') = Inr (js ''http://odd.example/v.mp4'')"
  "decodeURIComponent (js ''http://slow.example/v.mp4'') = Inr (js ''http://slow.example/v.mp4'')"
  "decodeURIComponent (js ''http://cut.example/v.mp4'') = Inr (js ''http://cut.example/v.mp4'')"
  "decodeURIComponent (js ''http%3A%2F%2Fb.example%2Fv.mp4'') = Inr (js ''http://b.example/v.mp4'')"
  by (simp_all add: uri_eval)

lemma example_query_value:
  "query_value (js ''http%3A%2F%2Fa.example%2Fv.mp4'') = js ''http://a.example/v.mp4''"
  "query_value (js ''http%3A%2F%2Fa.example%2Floop'') = js ''http://a.example/loop''"
  "query_value (js ''ftp%3A%2F%2Ffiles.example%2Fv.mp4'') = js ''ftp://files.example/v.mp4''"
  "query_value (js ''http%3A%2F%2Fh.example%2Fa%252Fb'') = js ''http://h.example/a%2Fb''"
  "query_value (js ''not-a-url'') = js ''not-a-url''"
  "query_value (js ''http%253A%252F%252Fb.example%252Fv.mp4'') =
     js ''http%3A%2F%2Fb.example%2Fv.mp4''"
  "query_value (js ''http%3A%2F%2Fb.example%2Fv.mp4'') = js ''http://b.example/v.mp4''"
  by (simp_all add: uri_eval)

lemma example_encode:
  "encodeURIComponent (js ''http://b.example/v.mp4'') = Inr (js ''http%3A%2F%2Fb.example%2Fv.mp4'')"
  "encodeURIComponent (js ''http://a.example/loop'') = Inr (js ''http%3A%2F%2Fa.example%2Floop'')"
  "encodeURIComponent (js ''http://h.example/a%2Fb'') = Inr (js ''http%3A%2F%2Fh.example%2Fa%252Fb'')"
  by (simp_all add: uri_eval)

lemma example_same:
  "query_value (js ''http%3A%2F%2Fh.example%2Fa%2Fb'') = js ''http://h.example/a/b''"
  "decodeURIComponent (js ''http://h.example/a/b'') = Inr (js ''http://h.example/a/b'')"
  by (simp_all add: uri_eval)

section \<open>The claims\<close>

subsection \<open>C1: redirects\<close>

text \<open>
  C1, as the specification states it: an upstream answer with status 301, 302, 307 or 308
  and a \<^verbatim>\<open>Location\<close> never reaches the inbound client, because the relay requests the
  target itself. The handler does otherwise. Upstream \<^verbatim>\<open>a.example\<close> answers 302 with
  \<^verbatim>\<open>Location: http://b.example/v.mp4\<close>; the handler has made one request, to
  \<^verbatim>\<open>a.example\<close>, and answers the inbound client with \<^verbatim>\<open>res.redirect\<close>, a 302.
\<close>

theorem C1_counterexample:
  "video_proxy example_runtime
     (inbound_request (Some (js ''http%3A%2F%2Fa.example%2Fv.mp4'')) None) =
   Inr \<lparr>inbound =
          Answered (Redirect (js ''/video-proxy?url=http%3A%2F%2Fb.example%2Fv.mp4'')),
        outbound =
          [(http,
            \<lparr>opts_hostname = js ''a.example'', opts_port = PortNumber 80,
             opts_path = js ''/v.mp4'', opts_method = None,
             opts_headers =
               [(''User-Agent'', js ''Mozilla/5.0''), (''Accept'', js ''*/*''),
                (''Accept-Encoding'', js ''identity'')]\<rparr>)]\<rparr>
   \<and> status_of (Redirect (js ''/video-proxy?url=http%3A%2F%2Fb.example%2Fv.mp4'')) = 302"
proof -
  let ?r = "inbound_request (Some (js ''http%3A%2F%2Fa.example%2Fv.mp4'')) None"
  let ?parsed = "\<lparr>protocol = js ''http:'', username = [], password = [],
          hostname = js ''a.example'', port = [], pathname = js ''/v.mp4'',
          search = [], hash = []\<rparr>"
  have r: "query_url ?r = Some (js ''http://a.example/v.mp4'')"
    by (simp add: inbound_request_def example_query_value)
  have ne: "js ''http://a.example/v.mp4'' \<noteq> []"
    by (simp add: js_Nil)
  have ev: "client_request example_runtime (select_client ?parsed) (make_opts ?parsed ?r) =
          Inr (ResponseEvent
             \<lparr>statusCode = 302, headers = [(''location'', js ''http://b.example/v.mp4'')],
              body = []\<rparr>)"
    by (rule example_request_a) (simp_all add: make_opts_fields)
  have "on_event (ResponseEvent
             \<lparr>statusCode = 302, headers = [(''location'', js ''http://b.example/v.mp4'')],
              body = []\<rparr>) =
        Answered (Redirect (js ''/video-proxy?url='' @ js ''http%3A%2F%2Fb.example%2Fv.mp4''))"
    by (rule on_event_redirect [where l = "js ''http://b.example/v.mp4''"])
      (simp_all add: js_Nil example_encode)
  moreover have "select_client ?parsed = http"
    by (simp add: select_client_def js_eq_iff)
  moreover have "make_opts ?parsed ?r =
      \<lparr>opts_hostname = js ''a.example'', opts_port = PortNumber 80,
       opts_path = js ''/v.mp4'', opts_method = None,
       opts_headers =
         [(''User-Agent'', js ''Mozilla/5.0''), (''Accept'', js ''*/*''),
          (''Accept-Encoding'', js ''identity'')]\<rparr>"
    by (simp add: make_opts_def inbound_request_def when_truthy_def truthy_def js_eq_iff)
  ultimately show ?thesis
    using video_proxy_requested [OF r ne example_decode(1) example_URL_simps(1) ev]
    by (simp add: js_append)
qed

text \<open>
  C1, amended: for every upstream response with status 301, 302, 307 or 308 and a
  non-empty \<^verbatim>\<open>Location\<close> header (header values are Latin-1 strings), the handler makes
  no further upstream request; it answers the inbound client with a 302 redirect to
  \<^verbatim>\<open>/video-proxy?url=\<close> followed by \<^verbatim>\<open>encodeURIComponent\<close> of the \<^verbatim>\<open>Location\<close>. The
  client sees this intermediate redirect, and by following it asks the relay for the
  \<^verbatim>\<open>Location\<close>.
\<close>

theorem C1_redirect_is_handed_to_the_client:
  assumes "query_url r = Some u" and "u \<noteq> []"
    and "decodeURIComponent u = Inr d" and "URL_new rt d = Inr parsed"
    and "client_request rt (select_client parsed) (make_opts parsed r) = Inr (ResponseEvent p)"
    and "statusCode p \<in> {301, 302, 307, 308}"
    and "map_of (headers p) ''location'' = Some l" and "l \<noteq> []"
    and "\<forall>c \<in> set l. c < 0x100"
  shows "\<exists>enc. encodeURIComponent l = Inr enc
           \<and> video_proxy rt r =
               Inr \<lparr>inbound = Answered (Redirect (js ''/video-proxy?url='' @ enc)),
                    outbound = [(select_client parsed, make_opts parsed r)]\<rparr>
           \<and> status_of (Redirect (js ''/video-proxy?url='' @ enc)) = 302
           \<and> follow r (js ''/video-proxy?url='' @ enc) =
               Some \<lparr>query_url = Some l, headers_range = headers_range r\<rparr>"
proof -
  from assms(9) obtain enc where enc: "encodeURIComponent l = Inr enc"
    using Encode_latin1 [of l] by (auto simp add: encodeURIComponent_def)
  have "on_event (ResponseEvent p) = Answered (Redirect (js ''/video-proxy?url='' @ enc))"
    using assms(6-8) enc by (rule on_event_redirect)
  with video_proxy_requested [OF assms(1-5)] enc follow_encoded [OF enc, of r]
  show ?thesis by simp
qed

text \<open>The hypotheses of C1 hold for the request to \<^verbatim>\<open>a.example\<close> of the example runtime.\<close>

theorem C1_witness:
  "decodeURIComponent (js ''http://a.example/v.mp4'') = Inr (js ''http://a.example/v.mp4'')
   \<and> (\<exists>enc. encodeURIComponent (js ''http://b.example/v.mp4'') = Inr enc
         \<and> video_proxy example_runtime
              \<lparr>query_url = Some (js ''http://a.example/v.mp4''), headers_range = None\<rparr> =
             Inr \<lparr>inbound = Answered (Redirect (js ''/video-proxy?url='' @ enc)),
                  outbound =
                    [(http,
                      make_opts
                        \<lparr>protocol = js ''http:'', username = [], password = [],
                         hostname = js ''a.example'', port = [], pathname = js ''/v.mp4'',
                         search = [], hash = []\<rparr>
                        \<lparr>query_url = Some (js ''http://a.example/v.mp4''),
                         headers_range = None\<rparr>)]\<rparr>
         \<and> status_of (Redirect (js ''/video-proxy?url='' @ enc)) = 302
         \<and> follow \<lparr>query_url = Some (js ''http://a.example/v.mp4''), headers_range = None\<rparr>
              (js ''/video-proxy?url='' @ enc) =
             Some \<lparr>query_url = Some (js ''http://b.example/v.mp4''), headers_range = None\<rparr>)"
proof -
  let ?r = "\<lparr>query_url = Some (js ''http://a.example/v.mp4''), headers_range = None\<rparr>"
  let ?parsed = "\<lparr>protocol = js ''http:'', username = [], password = [],
          hostname = js ''a.example'', port = [], pathname = js ''/v.mp4'',
          search = [], hash = []\<rparr>"
  let ?p = "\<lparr>statusCode = 302, headers = [(''location'', js ''http://b.example/v.mp4'')],
             body = []\<rparr>"
  have client: "select_client ?parsed = http"
    by (simp add: select_client_def js_eq_iff)
  have ev: "client_request example_runtime (select_client ?parsed) (make_opts ?parsed ?r) =
          Inr (ResponseEvent ?p)"
    by (rule example_request_a) (simp_all add: make_opts_fields)
  have latin1: "\<forall>c \<in> set (js ''http://b.example/v.mp4''). c < 0x100"
    by (simp add: js_def)
  have "query_url ?r = Some (js ''http://a.example/v.mp4'')"
    and "js ''http://a.example/v.mp4'' \<noteq> []"
    and "statusCode ?p \<in> {301, 302, 307, 308}"
    and "map_of (headers ?p) ''location'' = Some (js ''http://b.example/v.mp4'')"
    and "js ''http://b.example/v.mp4'' \<noteq> []"
    by (simp_all add: js_Nil)
  from C1_redirect_is_handed_to_the_client
         [OF this(1,2) example_decode(1) example_URL_simps(1) ev this(3,4,5) latin1]
  show ?thesis using client by (simp add: example_decode)
qed

subsection \<open>C2: the number of hops\<close>

text \<open>
  C2, as the specification states it: a configured cap bounds the redirect hops of one
  inbound request, and an upstream that redirects to itself makes the relay stop with
  502 after the cap. The handler has no hop counter. Upstream \<^verbatim>\<open>a.example\<close> answers
  \<^verbatim>\<open>/loop\<close> with 302 and \<^verbatim>\<open>Location: http://a.example/loop\<close>. The handler answers
  the inbound request with a 302 after one upstream request, and the twelfth request of a
  client that has followed eleven redirects of the relay, one more than the largest
  recommended cap, is answered with the same 302 again.
\<close>

theorem C2_counterexample:
  "video_proxy example_runtime
     (inbound_request (Some (js ''http%3A%2F%2Fa.example%2Floop'')) None) =
   Inr \<lparr>inbound =
          Answered (Redirect (js ''/video-proxy?url=http%3A%2F%2Fa.example%2Floop'')),
        outbound =
          [(http,
            \<lparr>opts_hostname = js ''a.example'', opts_port = PortNumber 80,
             opts_path = js ''/loop'', opts_method = None,
             opts_headers =
               [(''User-Agent'', js ''Mozilla/5.0''), (''Accept'', js ''*/*''),
                (''Accept-Encoding'', js ''identity'')]\<rparr>)]\<rparr>
   \<and> chase example_runtime 1 [2, 3, 4, 5, 6, 7, 8, 9, 10, 11, 12]
     (inbound_request (Some (js ''http%3A%2F%2Fa.example%2Floop'')) None) =
   Inr \<lparr>inbound =
          Answered (Redirect (js ''/video-proxy?url=http%3A%2F%2Fa.example%2Floop'')),
        outbound =
          [(http,
            \<lparr>opts_hostname = js ''a.example'', opts_port = PortNumber 80,
             opts_path = js ''/loop'', opts_method = None,
             opts_headers =
               [(''User-Agent'', js ''Mozilla/5.0''), (''Accept'', js ''*/*''),
                (''Accept-Encoding'', js ''identity'')]\<rparr>)]\<rparr>
   \<and> status_of (Redirect (js ''/video-proxy?url=http%3A%2F%2Fa.example%2Floop'')) = 302"
proof -
  let ?r = "inbound_request (Some (js ''http%3A%2F%2Fa.example%2Floop'')) None"
  let ?parsed = "\<lparr>protocol = js ''http:'', username = [], password = [],
          hostname = js ''a.example'', port = [], pathname = js ''/loop'',
          search = [], hash = []\<rparr>"
  let ?p = "\<lparr>statusCode = 302, headers = [(''location'', js ''http://a.example/loop'')],
             body = []\<rparr>"
  let ?res = "Inr \<lparr>inbound =
          Answered (Redirect (js ''/video-proxy?url=http%3A%2F%2Fa.example%2Floop'')),
        outbound =
          [(http,
            \<lparr>opts_hostname = js ''a.example'', opts_port = PortNumber 80,
             opts_path = js ''/loop'', opts_method = None,
             opts_headers =
               [(''User-Agent'', js ''Mozilla/5.0''), (''Accept'', js ''*/*''),
                (''Accept-Encoding'', js ''identity'')]\<rparr>)]\<rparr>"
  have r: "query_url ?r = Some (js ''http://a.example/loop'')"
    by (simp add: inbound_request_def example_query_value)
  have ne: "js ''http://a.example/loop'' \<noteq> []"
    by (simp add: js_Nil)
  have ev: "client_request example_runtime (select_client ?parsed) (make_opts ?parsed ?r) =
          Inr (ResponseEvent ?p)"
    by (rule example_request_loop) (simp_all add: make_opts_fields)
  have "on_event (ResponseEvent ?p) =
        Answered (Redirect (js ''/video-proxy?url='' @ js ''http%3A%2F%2Fa.example%2Floop''))"
    by (rule on_event_redirect [where l = "js ''http://a.example/loop''"])
      (simp_all add: js_Nil example_encode)
  moreover have "select_client ?parsed = http"
    by (simp add: select_client_def js_eq_iff)
  moreover have "make_opts ?parsed ?r =
      \<lparr>opts_hostname = js ''a.example'', opts_port = PortNumber 80,
       opts_path = js ''/loop'', opts_method = None,
       opts_headers =
         [(''User-Agent'', js ''Mozilla/5.0''), (''Accept'', js ''*/*''),
          (''Accept-Encoding'', js ''identity'')]\<rparr>"
    by (simp add: make_opts_def inbound_request_def when_truthy_def truthy_def js_eq_iff)
  ultimately have once: "video_proxy example_runtime ?r = ?res"
    using video_proxy_requested [OF r ne example_decode(2) example_URL_simps(2) ev]
    by (simp add: js_append)
  have again: "follow ?r (js ''/video-proxy?url=http%3A%2F%2Fa.example%2Floop'') = Some ?r"
    using follow_redirect [of ?r "js ''http%3A%2F%2Fa.example%2Floop''"]
    by (simp add: js_append inbound_request_def example_query_value)
  have "chase example_runtime 1 [2, 3, 4, 5, 6, 7, 8, 9, 10, 11, 12] ?r = ?res"
    using chase_fixed [OF once again, of 1 "[2, 3, 4, 5, 6, 7, 8, 9, 10, 11, 12]"]
    by (simp add: videoProxyLimiter_def)
  with once show ?thesis by simp
qed

text \<open>
  C2, amended: the handler keeps no hop count and follows no redirect itself. Let the
  \<^verbatim>\<open>url\<close> parameter of a request decode to a URL that parses, and let the upstream answer
  the request for that URL with status 301, 302, 307 or 308 and a \<^verbatim>\<open>Location\<close> (a
  non-empty Latin-1 string) that leads back to the URL: \<^verbatim>\<open>decodeURIComponent\<close>, which the
  handler applies to every \<^verbatim>\<open>url\<close> parameter, turns the \<^verbatim>\<open>Location\<close> into the URL that
  was requested. For a URL without percent escapes this is a redirect to itself. Then
  every request of a client that follows the redirects of the relay is answered with the
  same 302 to \<^verbatim>\<open>/video-proxy\<close> after exactly one upstream request, however many redirects
  the client has followed, as long as the rate limiter admits the requests. The only
  bound is the limiter's: the first request for which its count for the client exceeds
  100 is answered with 429 and no upstream request, and there the client stops. No
  request is answered with 502.
\<close>

theorem C2_no_hop_cap:
  assumes "query_url r = Some u" and "u \<noteq> []"
    and "decodeURIComponent u = Inr d" and "URL_new rt d = Inr parsed"
    and "client_request rt (select_client parsed) (make_opts parsed r) = Inr (ResponseEvent p)"
    and "statusCode p \<in> {301, 302, 307, 308}"
    and "map_of (headers p) ''location'' = Some l" and "l \<noteq> []"
    and "\<forall>c \<in> set l. c < 0x100"
    and "decodeURIComponent l = Inr d"
  shows "\<exists>enc. encodeURIComponent l = Inr enc
           \<and> chase rt hits later r =
               (if list_all videoProxyLimiter (hits # later)
                then Inr \<lparr>inbound = Answered (Redirect (js ''/video-proxy?url='' @ enc)),
                          outbound = [(select_client parsed, make_opts parsed r)]\<rparr>
                else Inr \<lparr>inbound = Answered TooManyRequests, outbound = []\<rparr>)
           \<and> status_of (Redirect (js ''/video-proxy?url='' @ enc)) = 302
           \<and> status_of TooManyRequests = 429"
proof -
  from assms(9) obtain enc where enc: "encodeURIComponent l = Inr enc"
    using Encode_latin1 [of l] by (auto simp add: encodeURIComponent_def)
  define r' where "r' = \<lparr>query_url = Some l, headers_range = headers_range r\<rparr>"
  let ?target = "js ''/video-proxy?url='' @ enc"
  let ?res = "Inr \<lparr>inbound = Answered (Redirect ?target),
                outbound = [(select_client parsed, make_opts parsed r)]\<rparr>"
  have ev: "on_event (ResponseEvent p) = Answered (Redirect ?target)"
    using assms(6-8) enc by (rule on_event_redirect)
  have first: "video_proxy rt r = ?res"
    using video_proxy_requested [OF assms(1-5)] ev by simp
  have same: "make_opts parsed r' = make_opts parsed r"
    by (rule make_opts_cong) (simp add: r'_def)
  have "query_url r' = Some l"
    by (simp add: r'_def)
  from video_proxy_requested [OF this assms(8,10,4), of "ResponseEvent p"] assms(5) ev
  have later: "video_proxy rt r' = ?res"
    by (simp add: same)
  have to_r': "follow r ?target = Some r'" and stay: "follow r' ?target = Some r'"
    using follow_encoded [OF enc] by (simp_all add: r'_def)
  have loop: "chase rt h hs r' =
           (if list_all videoProxyLimiter (h # hs) then ?res
            else Inr \<lparr>inbound = Answered TooManyRequests, outbound = []\<rparr>)" for h hs
    using later stay by (rule chase_fixed)
  have "chase rt hits later r =
           (if list_all videoProxyLimiter (hits # later) then ?res
            else Inr \<lparr>inbound = Answered TooManyRequests, outbound = []\<rparr>)"
  proof (cases "videoProxyLimiter hits")
    case False
    then show ?thesis by (simp add: chase_limited del: chase.simps)
  next
    case True
    show ?thesis
    proof (cases later)
      case Nil
      with True first show ?thesis by (simp add: video_proxy_route_def)
    next
      case (Cons next_hits rest)
      with True chase_step [OF first to_r' True] loop [of next_hits rest]
      show ?thesis by simp
    qed
  qed
  with enc show ?thesis by simp
qed

text \<open>
  The hypotheses of C2 hold for \<^verbatim>\<open>http://a.example/loop\<close> in the example runtime: the
  third request of a client is answered with the 302, and a client whose first request is
  the limiter's 99th is answered with 429 on its third.
\<close>

theorem C2_witness:
  "decodeURIComponent (js ''http://a.example/loop'') = Inr (js ''http://a.example/loop'')
   \<and> (\<exists>enc. encodeURIComponent (js ''http://a.example/loop'') = Inr enc
         \<and> chase example_runtime 1 [2, 3]
              \<lparr>query_url = Some (js ''http://a.example/loop''), headers_range = None\<rparr> =
             Inr \<lparr>inbound = Answered (Redirect (js ''/video-proxy?url='' @ enc)),
                  outbound =
                    [(http,
                      make_opts
                        \<lparr>protocol = js ''http:'', username = [], password = [],
                         hostname = js ''a.example'', port = [], pathname = js ''/loop'',
                         search = [], hash = []\<rparr>
                        \<lparr>query_url = Some (js ''http://a.example/loop''),
                         headers_range = None\<rparr>)]\<rparr>
         \<and> chase example_runtime 99 [100, 101, 102]
              \<lparr>query_url = Some (js ''http://a.example/loop''), headers_range = None\<rparr> =
             Inr \<lparr>inbound = Answered TooManyRequests, outbound = []\<rparr>)"
proof -
  let ?r = "\<lparr>query_url = Some (js ''http://a.example/loop''), headers_range = None\<rparr>"
  let ?parsed = "\<lparr>protocol = js ''http:'', username = [], password = [],
          hostname = js ''a.example'', port = [], pathname = js ''/loop'',
          search = [], hash = []\<rparr>"
  let ?p = "\<lparr>statusCode = 302, headers = [(''location'', js ''http://a.example/loop'')],
             body = []\<rparr>"
  have client: "select_client ?parsed = http"
    by (simp add: select_client_def js_eq_iff)
  have ev: "client_request example_runtime (select_client ?parsed) (make_opts ?parsed ?r) =
          Inr (ResponseEvent ?p)"
    by (rule example_request_loop) (simp_all add: make_opts_fields)
  have latin1: "\<forall>c \<in> set (js ''http://a.example/loop''). c < 0x100"
    by (simp add: js_def)
  have hyps: "query_url ?r = Some (js ''http://a.example/loop'')"
    "js ''http://a.example/loop'' \<noteq> []"
    "statusCode ?p \<in> {301, 302, 307, 308}"
    "map_of (headers ?p) ''location'' = Some (js ''http://a.example/loop'')"
    by (simp_all add: js_Nil)
  note inst = C2_no_hop_cap
         [OF hyps(1,2) example_decode(2) example_URL_simps(2) ev hyps(3,4,2) latin1
            example_decode(2)]
  from inst [of 1 "[2, 3]"] inst [of 99 "[100, 101, 102]"]
  show ?thesis using client by (auto simp add: example_decode videoProxyLimiter_def)
qed

subsection \<open>C3: invalid input\<close>

text \<open>
  C3: a \<^verbatim>\<open>url\<close> parameter that is missing, empty or no absolute URL is to be answered
  with 400, an empty body and no upstream request. So it is when the parameter is missing
  or empty, in every runtime, and for \<^verbatim>\<open>url=not-a-url\<close>. It is not so for every parameter
  that is no absolute URL: the handler does not parse the parameter, it parses what
  \<^verbatim>\<open>decodeURIComponent\<close> (line 175) makes of it, although the framework has decoded the
  query string already. For \<^verbatim>\<open>GET /video-proxy?url=http%253A%252F%252Fb.example%252Fv.mp4\<close>
  the parameter is \<^verbatim>\<open>http%3A%2F%2Fb.example%2Fv.mp4\<close>. It names no scheme and
  \<^verbatim>\<open>new URL\<close> throws on it, yet the handler decodes it to \<^verbatim>\<open>http://b.example/v.mp4\<close>,
  sends a request to \<^verbatim>\<open>b.example\<close> and relays the answer. In every runtime the handler
  does for this request what it does for \<^verbatim>\<open>url=http%3A%2F%2Fb.example%2Fv.mp4\<close>. The
  second decoding is the defect of C7.
\<close>

theorem C3_parameter_that_is_no_URL_is_requested:
  "video_proxy rt \<lparr>query_url = None, headers_range = rg\<rparr> =
     Inr \<lparr>inbound = Answered (End 400), outbound = []\<rparr>
   \<and> video_proxy rt \<lparr>query_url = Some [], headers_range = rg\<rparr> =
     Inr \<lparr>inbound = Answered (End 400), outbound = []\<rparr>
   \<and> video_proxy example_runtime (inbound_request (Some (js ''not-a-url'')) None) =
     Inr \<lparr>inbound = Answered (End 400), outbound = []\<rparr>
   \<and> query_url (inbound_request (Some (js ''http%253A%252F%252Fb.example%252Fv.mp4'')) None) =
       Some (js ''http%3A%2F%2Fb.example%2Fv.mp4'')
   \<and> URL_new example_runtime (js ''http%3A%2F%2Fb.example%2Fv.mp4'') = Inl TypeError
   \<and> video_proxy example_runtime
       (inbound_request (Some (js ''http%253A%252F%252Fb.example%252Fv.mp4'')) None) =
     Inr \<lparr>inbound =
            Answered
              (Pipe 206
                 [(''Content-Type'', js ''video/webm''), (''Accept-Ranges'', js ''bytes''),
                  (''Content-Length'', js ''3''), (''Content-Range'', js ''bytes 0-2/10'')]
                 [0x1A, 0x45, 0xDF]),
          outbound =
            [(http,
              \<lparr>opts_hostname = js ''b.example'', opts_port = PortNumber 80,
               opts_path = js ''/v.mp4'', opts_method = None,
               opts_headers =
                 [(''User-Agent'', js ''Mozilla/5.0''), (''Accept'', js ''*/*''),
                  (''Accept-Encoding'', js ''identity'')]\<rparr>)]\<rparr>
   \<and> video_proxy rt
       (inbound_request (Some (js ''http%253A%252F%252Fb.example%252Fv.mp4'')) rg) =
       video_proxy rt (inbound_request (Some (js ''http%3A%2F%2Fb.example%2Fv.mp4'')) rg)"
proof -
  let ?r = "inbound_request (Some (js ''http%253A%252F%252Fb.example%252Fv.mp4'')) None"
  let ?parsed = "\<lparr>protocol = js ''http:'', username = [], password = [],
          hostname = js ''b.example'', port = [], pathname = js ''/v.mp4'',
          search = [], hash = []\<rparr>"
  let ?p = "\<lparr>statusCode = 206,
        headers = [(''content-type'', js ''video/webm''), (''content-length'', js ''3''),
                   (''content-range'', js ''bytes 0-2/10'')],
        body = [0x1A, 0x45, 0xDF]\<rparr>"
  let ?options = "\<lparr>opts_hostname = js ''b.example'', opts_port = PortNumber 80,
       opts_path = js ''/v.mp4'', opts_method = None,
       opts_headers =
         [(''User-Agent'', js ''Mozilla/5.0''), (''Accept'', js ''*/*''),
          (''Accept-Encoding'', js ''identity'')]\<rparr>"
  have missing: "video_proxy rt \<lparr>query_url = None, headers_range = rg\<rparr> =
     Inr \<lparr>inbound = Answered (End 400), outbound = []\<rparr>"
    by (rule video_proxy_falsy) simp
  have empty: "video_proxy rt \<lparr>query_url = Some [], headers_range = rg\<rparr> =
     Inr \<lparr>inbound = Answered (End 400), outbound = []\<rparr>"
    by (rule video_proxy_falsy) simp
  have "query_url (inbound_request (Some (js ''not-a-url'')) None) = Some (js ''not-a-url'')"
    by (simp add: inbound_request_def example_query_value)
  moreover have "try_block example_runtime (inbound_request (Some (js ''not-a-url'')) None)
      (js ''not-a-url'') = Inl TypeError"
    using example_decode(9) example_URL_simps(9) by (rule try_block_URL_throws)
  ultimately have unparsed:
    "video_proxy example_runtime (inbound_request (Some (js ''not-a-url'')) None) =
       Inr \<lparr>inbound = Answered (End 400), outbound = []\<rparr>"
    by (rule video_proxy_thrown)
  have r: "query_url ?r = Some (js ''http%3A%2F%2Fb.example%2Fv.mp4'')"
    by (simp add: inbound_request_def example_query_value)
  have ne: "js ''http%3A%2F%2Fb.example%2Fv.mp4'' \<noteq> []"
    by (simp add: js_Nil)
  have client: "select_client ?parsed = http"
    by (simp add: select_client_def js_eq_iff)
  have options: "make_opts ?parsed ?r = ?options"
    by (simp add: make_opts_def inbound_request_def when_truthy_def truthy_def js_eq_iff)
  have ev: "client_request example_runtime http ?options = Inr (ResponseEvent ?p)"
    by (rule example_request_b) simp
  have "on_response ?p =
          Inr (Pipe 206
                 [(''Content-Type'', js ''video/webm''), (''Accept-Ranges'', js ''bytes''),
                  (''Content-Length'', js ''3''), (''Content-Range'', js ''bytes 0-2/10'')]
                 [0x1A, 0x45, 0xDF])"
    by (simp add: on_response_def redirect_location_def content_headers_def or_else_def
          when_truthy_def truthy_def js_Nil)
  then have "on_event (ResponseEvent ?p) =
          Answered (Pipe 206
                 [(''Content-Type'', js ''video/webm''), (''Accept-Ranges'', js ''bytes''),
                  (''Content-Length'', js ''3''), (''Content-Range'', js ''bytes 0-2/10'')]
                 [0x1A, 0x45, 0xDF])"
    by simp
  moreover
  have "video_proxy rt
       (inbound_request (Some (js ''http%253A%252F%252Fb.example%252Fv.mp4'')) rg) =
       video_proxy rt (inbound_request (Some (js ''http%3A%2F%2Fb.example%2Fv.mp4'')) rg)"
    by (rule video_proxy_same_decoding
          [where u = "js ''http%3A%2F%2Fb.example%2Fv.mp4''"
             and u' = "js ''http://b.example/v.mp4''"])
      (simp_all add: inbound_request_def example_query_value example_decode js_Nil)
  ultimately show ?thesis
    using video_proxy_requested [OF r ne example_decode(14) example_URL_simps(3)]
      ev client options r missing empty unparsed example_URL_simps(13)
    by simp
qed

subsection \<open>C4: content responses\<close>

text \<open>
  C4, as the specification states it: for every upstream response that is no redirect the
  inbound status is the upstream status, \<^verbatim>\<open>Content-Length\<close> and \<^verbatim>\<open>Content-Range\<close> are
  copied if and only if the upstream supplied them, and \<^verbatim>\<open>Content-Type\<close> is the
  upstream's unless it is absent. The handler tests the values for truthiness (lines 200,
  203 and 206), and the empty string is falsy. Upstream \<^verbatim>\<open>e.example\<close> answers 200 with an
  empty \<^verbatim>\<open>Content-Type\<close> and an empty \<^verbatim>\<open>Content-Range\<close>: the inbound response has
  \<^verbatim>\<open>Content-Type: video/mp4\<close> and no \<^verbatim>\<open>Content-Range\<close>. Upstream \<^verbatim>\<open>odd.example\<close> answers
  with the status code 99: the code is refused, the exception leaves the callback and no
  inbound response has the upstream status.
\<close>

theorem C4_counterexample:
  "client_request example_runtime http
     \<lparr>opts_hostname = js ''e.example'', opts_port = PortNumber 80,
      opts_path = js ''/v.mp4'', opts_method = None,
      opts_headers =
        [(''User-Agent'', js ''Mozilla/5.0''), (''Accept'', js ''*/*''),
         (''Accept-Encoding'', js ''identity'')]\<rparr> =
     Inr (ResponseEvent
       \<lparr>statusCode = 200, headers = [(''content-type'', []), (''content-range'', [])],
        body = [0x1A]\<rparr>)
   \<and> video_proxy example_runtime
       \<lparr>query_url = Some (js ''http://e.example/v.mp4''), headers_range = None\<rparr> =
     Inr \<lparr>inbound =
            Answered
              (Pipe 200
                 [(''Content-Type'', js ''video/mp4''), (''Accept-Ranges'', js ''bytes'')]
                 [0x1A]),
          outbound =
            [(http,
              \<lparr>opts_hostname = js ''e.example'', opts_port = PortNumber 80,
               opts_path = js ''/v.mp4'', opts_method = None,
               opts_headers =
                 [(''User-Agent'', js ''Mozilla/5.0''), (''Accept'', js ''*/*''),
                  (''Accept-Encoding'', js ''identity'')]\<rparr>)]\<rparr>
   \<and> client_request example_runtime http
     \<lparr>opts_hostname = js ''odd.example'', opts_port = PortNumber 80,
      opts_path = js ''/v.mp4'', opts_method = None,
      opts_headers =
        [(''User-Agent'', js ''Mozilla/5.0''), (''Accept'', js ''*/*''),
         (''Accept-Encoding'', js ''identity'')]\<rparr> =
     Inr (ResponseEvent \<lparr>statusCode = 99, headers = [], body = [0x1A]\<rparr>)
   \<and> video_proxy example_runtime
       \<lparr>query_url = Some (js ''http://odd.example/v.mp4''), headers_range = None\<rparr> =
     Inr \<lparr>inbound = CallbackThrew RangeError,
          outbound =
            [(http,
              \<lparr>opts_hostname = js ''odd.example'', opts_port = PortNumber 80,
               opts_path = js ''/v.mp4'', opts_method = None,
               opts_headers =
                 [(''User-Agent'', js ''Mozilla/5.0''), (''Accept'', js ''*/*''),
                  (''Accept-Encoding'', js ''identity'')]\<rparr>)]\<rparr>"
proof -
  let ?r = "\<lparr>query_url = Some (js ''http://e.example/v.mp4''), headers_range = None\<rparr>"
  let ?parsed = "\<lparr>protocol = js ''http:'', username = [], password = [],
          hostname = js ''e.example'', port = [], pathname = js ''/v.mp4'',
          search = [], hash = []\<rparr>"
  let ?p = "\<lparr>statusCode = 200, headers = [(''content-type'', []), (''content-range'', [])],
             body = [0x1A]\<rparr>"
  let ?options = "\<lparr>opts_hostname = js ''e.example'', opts_port = PortNumber 80,
       opts_path = js ''/v.mp4'', opts_method = None,
       opts_headers =
         [(''User-Agent'', js ''Mozilla/5.0''), (''Accept'', js ''*/*''),
          (''Accept-Encoding'', js ''identity'')]\<rparr>"
  let ?r' = "\<lparr>query_url = Some (js ''http://odd.example/v.mp4''), headers_range = None\<rparr>"
  let ?parsed' = "\<lparr>protocol = js ''http:'', username = [], password = [],
          hostname = js ''odd.example'', port = [], pathname = js ''/v.mp4'',
          search = [], hash = []\<rparr>"
  let ?p' = "\<lparr>statusCode = 99, headers = [], body = [0x1A]\<rparr>"
  let ?options' = "\<lparr>opts_hostname = js ''odd.example'', opts_port = PortNumber 80,
       opts_path = js ''/v.mp4'', opts_method = None,
       opts_headers =
         [(''User-Agent'', js ''Mozilla/5.0''), (''Accept'', js ''*/*''),
          (''Accept-Encoding'', js ''identity'')]\<rparr>"
  have client: "select_client ?parsed = http"
    by (simp add: select_client_def js_eq_iff)
  have options: "make_opts ?parsed ?r = ?options"
    by (simp add: make_opts_def when_truthy_def truthy_def js_eq_iff)
  have ev: "client_request example_runtime http ?options = Inr (ResponseEvent ?p)"
    by (rule example_request_e) simp
  have "on_response ?p =
          Inr (Pipe 200 [(''Content-Type'', js ''video/mp4''), (''Accept-Ranges'', js ''bytes'')]
                 [0x1A])"
    by (simp add: on_response_def redirect_location_def content_headers_def or_else_def
          when_truthy_def truthy_def)
  then have "on_event (ResponseEvent ?p) =
          Answered (Pipe 200
            [(''Content-Type'', js ''video/mp4''), (''Accept-Ranges'', js ''bytes'')] [0x1A])"
    by simp
  moreover have "query_url ?r = Some (js ''http://e.example/v.mp4'')"
    and "js ''http://e.example/v.mp4'' \<noteq> []"
    by (simp_all add: js_Nil)
  ultimately have empty:
    "video_proxy example_runtime ?r =
       Inr \<lparr>inbound =
              Answered
                (Pipe 200
                   [(''Content-Type'', js ''video/mp4''), (''Accept-Ranges'', js ''bytes'')]
                   [0x1A]),
            outbound = [(http, ?options)]\<rparr>"
    using video_proxy_requested [OF _ _ example_decode(8) example_URL_simps(8), of ?r]
      ev client options
    by simp
  have client': "select_client ?parsed' = http"
    by (simp add: select_client_def js_eq_iff)
  have options': "make_opts ?parsed' ?r' = ?options'"
    by (simp add: make_opts_def when_truthy_def truthy_def js_eq_iff)
  have ev': "client_request example_runtime http ?options' = Inr (ResponseEvent ?p')"
    by (rule example_request_odd) simp
  have "on_response ?p' = Inl RangeError"
    by (rule on_response_status_throws) simp_all
  then have "on_event (ResponseEvent ?p') = CallbackThrew RangeError"
    by simp
  moreover have "query_url ?r' = Some (js ''http://odd.example/v.mp4'')"
    and "js ''http://odd.example/v.mp4'' \<noteq> []"
    by (simp_all add: js_Nil)
  ultimately have odd:
    "video_proxy example_runtime ?r' =
       Inr \<lparr>inbound = CallbackThrew RangeError, outbound = [(http, ?options')]\<rparr>"
    using video_proxy_requested [OF _ _ example_decode(11) example_URL_simps(10), of ?r']
      ev' client' options'
    by simp
  from ev empty ev' odd show ?thesis by simp
qed

text \<open>
  C4, amended: for every upstream response that arrives whole, is not a redirect (its
  status is not 301, 302, 307 or 308, or it has no non-empty \<^verbatim>\<open>Location\<close>) and has a
  status code from 100 to 999, the handler gives the inbound response the upstream status
  and pipes the upstream body into it; \<^verbatim>\<open>Content-Type\<close> is the upstream's when that is
  present and not empty, and \<^verbatim>\<open>video/mp4\<close> otherwise; \<^verbatim>\<open>Accept-Ranges: bytes\<close> is always
  set; \<^verbatim>\<open>Content-Length\<close> and \<^verbatim>\<open>Content-Range\<close> are copied if and only if the upstream
  supplied them with a non-empty value; the handler sets no other header. On its way out
  the response passes the compression middleware. When that does not encode, it leaves
  the body and these headers as they are (it may add \<^verbatim>\<open>Vary\<close>). When it encodes, it
  removes \<^verbatim>\<open>Content-Length\<close>, sets \<^verbatim>\<open>Content-Encoding\<close>, sends the encoded body and leaves
  \<^verbatim>\<open>Content-Type\<close>, \<^verbatim>\<open>Accept-Ranges\<close> and \<^verbatim>\<open>Content-Range\<close> as they are.
\<close>

theorem C4_content_response_is_copied:
  assumes "query_url r = Some u" and "u \<noteq> []"
    and "decodeURIComponent u = Inr d" and "URL_new rt d = Inr parsed"
    and "client_request rt (select_client parsed) (make_opts parsed r) = Inr (ResponseEvent p)"
    and "\<not> (statusCode p \<in> {301, 302, 307, 308}
             \<and> (\<exists>l. map_of (headers p) ''location'' = Some l \<and> l \<noteq> []))"
    and "100 \<le> statusCode p" and "statusCode p \<le> 999"
  shows "\<exists>h. video_proxy rt r =
               Inr \<lparr>inbound = Answered (Pipe (statusCode p) h (body p)),
                    outbound = [(select_client parsed, make_opts parsed r)]\<rparr>
           \<and> status_of (Pipe (statusCode p) h (body p)) = statusCode p
           \<and> map_of h ''Content-Type'' =
               Some (case map_of (headers p) ''content-type'' of
                       Some v \<Rightarrow> if v = [] then js ''video/mp4'' else v
                     | None \<Rightarrow> js ''video/mp4'')
           \<and> map_of h ''Accept-Ranges'' = Some (js ''bytes'')
           \<and> map_of h ''Content-Length'' =
               (case map_of (headers p) ''content-length'' of
                  Some v \<Rightarrow> if v = [] then None else Some v
                | None \<Rightarrow> None)
           \<and> map_of h ''Content-Range'' =
               (case map_of (headers p) ''content-range'' of
                  Some v \<Rightarrow> if v = [] then None else Some v
                | None \<Rightarrow> None)
           \<and> fst ` set h \<subseteq>
               {''Content-Type'', ''Accept-Ranges'', ''Content-Length'', ''Content-Range''}
           \<and> compression zlib Filtered (h, body p) = (h, body p)
           \<and> compression zlib NotEncoded (h, body p) =
               (AList.update ''Vary'' (js ''Accept-Encoding'') h, body p)
           \<and> (\<exists>h'. compression zlib (Encoded coding) (h, body p) = (h', zlib coding (body p))
                 \<and> map_of h' ''Content-Length'' = None
                 \<and> map_of h' ''Content-Encoding'' = Some coding
                 \<and> map_of h' ''Content-Type'' = map_of h ''Content-Type''
                 \<and> map_of h' ''Accept-Ranges'' = map_of h ''Accept-Ranges''
                 \<and> map_of h' ''Content-Range'' = map_of h ''Content-Range'')"
proof -
  have "on_response p = Inr (Pipe (statusCode p) (content_headers p) (body p))"
    using assms(6-8) by (rule on_response_content)
  then have "on_event (ResponseEvent p) =
               Answered (Pipe (statusCode p) (content_headers p) (body p))"
    by simp
  with video_proxy_requested [OF assms(1-5)]
  have "video_proxy rt r =
          Inr \<lparr>inbound = Answered (Pipe (statusCode p) (content_headers p) (body p)),
               outbound = [(select_client parsed, make_opts parsed r)]\<rparr>"
    by simp
  then show ?thesis
    using content_headers_lookup [of p] content_headers_names [of p]
      compression_Filtered [of zlib "content_headers p" "body p"]
      compression_NotEncoded [of zlib "content_headers p" "body p"]
      compression_Encoded [of zlib coding "content_headers p" "body p"]
    by (intro exI [of _ "content_headers p"]) simp
qed

text \<open>
  The hypotheses of C4 hold for the partial content of \<^verbatim>\<open>b.example\<close>, whose content type
  the middleware does not compress.
\<close>

theorem C4_witness:
  "client_request example_runtime http
      (make_opts
         \<lparr>protocol = js ''http:'', username = [], password = [],
          hostname = js ''b.example'', port = [], pathname = js ''/v.mp4'',
          search = [], hash = []\<rparr>
         \<lparr>query_url = Some (js ''http://b.example/v.mp4''),
          headers_range = Some (js ''bytes=0-2'')\<rparr>) =
     Inr (ResponseEvent
       \<lparr>statusCode = 206,
        headers = [(''content-type'', js ''video/webm''), (''content-length'', js ''3''),
                   (''content-range'', js ''bytes 0-2/10'')],
        body = [0x1A, 0x45, 0xDF]\<rparr>)
   \<and> (\<exists>h. video_proxy example_runtime
              \<lparr>query_url = Some (js ''http://b.example/v.mp4''),
               headers_range = Some (js ''bytes=0-2'')\<rparr> =
            Inr \<lparr>inbound = Answered (Pipe 206 h [0x1A, 0x45, 0xDF]),
                 outbound =
                   [(http,
                     make_opts
                       \<lparr>protocol = js ''http:'', username = [], password = [],
                        hostname = js ''b.example'', port = [], pathname = js ''/v.mp4'',
                        search = [], hash = []\<rparr>
                       \<lparr>query_url = Some (js ''http://b.example/v.mp4''),
                        headers_range = Some (js ''bytes=0-2'')\<rparr>)]\<rparr>
         \<and> map_of h ''Content-Type'' = Some (js ''video/webm'')
         \<and> map_of h ''Accept-Ranges'' = Some (js ''bytes'')
         \<and> map_of h ''Content-Length'' = Some (js ''3'')
         \<and> map_of h ''Content-Range'' = Some (js ''bytes 0-2/10'')
         \<and> fst ` set h \<subseteq>
             {''Content-Type'', ''Accept-Ranges'', ''Content-Length'', ''Content-Range''}
         \<and> compression (\<lambda>coding b. b) Filtered (h, [0x1A, 0x45, 0xDF]) =
             (h, [0x1A, 0x45, 0xDF]))"
proof -
  let ?r = "\<lparr>query_url = Some (js ''http://b.example/v.mp4''),
             headers_range = Some (js ''bytes=0-2'')\<rparr>"
  let ?parsed = "\<lparr>protocol = js ''http:'', username = [], password = [],
          hostname = js ''b.example'', port = [], pathname = js ''/v.mp4'',
          search = [], hash = []\<rparr>"
  let ?p = "\<lparr>statusCode = 206,
        headers = [(''content-type'', js ''video/webm''), (''content-length'', js ''3''),
                   (''content-range'', js ''bytes 0-2/10'')],
        body = [0x1A, 0x45, 0xDF]\<rparr>"
  have client: "select_client ?parsed = http"
    by (simp add: select_client_def js_eq_iff)
  have ev: "client_request example_runtime (select_client ?parsed) (make_opts ?parsed ?r) =
          Inr (ResponseEvent ?p)"
    by (rule example_request_b) (simp add: make_opts_fields)
  have "query_url ?r = Some (js ''http://b.example/v.mp4'')"
    and "js ''http://b.example/v.mp4'' \<noteq> []"
    and "\<not> (statusCode ?p \<in> {301, 302, 307, 308}
             \<and> (\<exists>l. map_of (headers ?p) ''location'' = Some l \<and> l \<noteq> []))"
    and "100 \<le> statusCode ?p" and "statusCode ?p \<le> 999"
    by (simp_all add: js_Nil)
  from C4_content_response_is_copied
         [OF this(1,2) example_decode(3) example_URL_simps(3) ev this(3,4,5),
          of "\<lambda>coding b. b" "js ''gzip''"]
  obtain h where h: "video_proxy example_runtime ?r =
               Inr \<lparr>inbound = Answered (Pipe 206 h [0x1A, 0x45, 0xDF]),
                    outbound = [(select_client ?parsed, make_opts ?parsed ?r)]\<rparr>"
    "map_of h ''Content-Type'' = Some (js ''video/webm'')"
    "map_of h ''Accept-Ranges'' = Some (js ''bytes'')"
    "map_of h ''Content-Length'' = Some (js ''3'')"
    "map_of h ''Content-Range'' = Some (js ''bytes 0-2/10'')"
    "fst ` set h \<subseteq>
               {''Content-Type'', ''Accept-Ranges'', ''Content-Length'', ''Content-Range''}"
    "compression (\<lambda>coding b. b) Filtered (h, [0x1A, 0x45, 0xDF]) = (h, [0x1A, 0x45, 0xDF])"
    by (auto simp add: js_Nil)
  with ev client show ?thesis by auto
qed

subsection \<open>C5: the outbound request\<close>

text \<open>
  C5, as the specification states it: the raw value of an inbound \<^verbatim>\<open>Range\<close> header is
  forwarded whenever the inbound request carries one. Line 190 tests the value for
  truthiness: an inbound request with \<^verbatim>\<open>Range:\<close> and an empty value carries the header,
  and the outbound request has none.
\<close>

theorem C5_counterexample:
  "video_proxy example_runtime
     \<lparr>query_url = Some (js ''http://b.example/v.mp4''), headers_range = Some []\<rparr> =
   Inr \<lparr>inbound =
          Answered
            (Pipe 206
               [(''Content-Type'', js ''video/webm''), (''Accept-Ranges'', js ''bytes''),
                (''Content-Length'', js ''3''), (''Content-Range'', js ''bytes 0-2/10'')]
               [0x1A, 0x45, 0xDF]),
        outbound =
          [(http,
            \<lparr>opts_hostname = js ''b.example'', opts_port = PortNumber 80,
             opts_path = js ''/v.mp4'', opts_method = None,
             opts_headers =
               [(''User-Agent'', js ''Mozilla/5.0''), (''Accept'', js ''*/*''),
                (''Accept-Encoding'', js ''identity'')]\<rparr>)]\<rparr>"
proof -
  let ?r = "\<lparr>query_url = Some (js ''http://b.example/v.mp4''), headers_range = Some []\<rparr>"
  let ?parsed = "\<lparr>protocol = js ''http:'', username = [], password = [],
          hostname = js ''b.example'', port = [], pathname = js ''/v.mp4'',
          search = [], hash = []\<rparr>"
  let ?p = "\<lparr>statusCode = 206,
        headers = [(''content-type'', js ''video/webm''), (''content-length'', js ''3''),
                   (''content-range'', js ''bytes 0-2/10'')],
        body = [0x1A, 0x45, 0xDF]\<rparr>"
  let ?options = "\<lparr>opts_hostname = js ''b.example'', opts_port = PortNumber 80,
       opts_path = js ''/v.mp4'', opts_method = None,
       opts_headers =
         [(''User-Agent'', js ''Mozilla/5.0''), (''Accept'', js ''*/*''),
          (''Accept-Encoding'', js ''identity'')]\<rparr>"
  have client: "select_client ?parsed = http"
    by (simp add: select_client_def js_eq_iff)
  have options: "make_opts ?parsed ?r = ?options"
    by (simp add: make_opts_def when_truthy_def truthy_def js_eq_iff)
  have ev: "client_request example_runtime http ?options = Inr (ResponseEvent ?p)"
    by (rule example_request_b) simp
  have "on_response ?p =
          Inr (Pipe 206
               [(''Content-Type'', js ''video/webm''), (''Accept-Ranges'', js ''bytes''),
                (''Content-Length'', js ''3''), (''Content-Range'', js ''bytes 0-2/10'')]
               [0x1A, 0x45, 0xDF])"
    by (simp add: on_response_def redirect_location_def content_headers_def or_else_def
          when_truthy_def truthy_def js_Nil)
  then have "on_event (ResponseEvent ?p) =
          Answered (Pipe 206
               [(''Content-Type'', js ''video/webm''), (''Accept-Ranges'', js ''bytes''),
                (''Content-Length'', js ''3''), (''Content-Range'', js ''bytes 0-2/10'')]
               [0x1A, 0x45, 0xDF])"
    by simp
  moreover have "query_url ?r = Some (js ''http://b.example/v.mp4'')"
    and "js ''http://b.example/v.mp4'' \<noteq> []"
    by (simp_all add: js_Nil)
  ultimately show ?thesis
    using video_proxy_requested [OF _ _ example_decode(3) example_URL_simps(3), of ?r]
      ev client options
    by simp
qed

text \<open>
  C5, amended: for every validly parsed target URL for which \<^verbatim>\<open>client.request\<close> creates
  the request, the request has method \<^verbatim>\<open>GET\<close> and the headers
  \<^verbatim>\<open>User-Agent: Mozilla/5.0\<close>, \<^verbatim>\<open>Accept: */*\<close> and \<^verbatim>\<open>Accept-Encoding: identity\<close>; it has
  the inbound \<^verbatim>\<open>Range\<close> value, verbatim, when the inbound request has a non-empty one,
  and no \<^verbatim>\<open>Range\<close> header when the inbound request has none or an empty one; it has
  no other header of the handler's.
\<close>

theorem C5_outbound_request:
  assumes "query_url r = Some u" and "u \<noteq> []"
    and "decodeURIComponent u = Inr d" and "URL_new rt d = Inr parsed"
    and "client_request rt (select_client parsed) (make_opts parsed r) = Inr ev"
  shows "video_proxy rt r =
           Inr \<lparr>inbound = on_event ev,
                outbound = [(select_client parsed, make_opts parsed r)]\<rparr>
         \<and> request_method (make_opts parsed r) = js ''GET''
         \<and> map_of (opts_headers (make_opts parsed r)) ''User-Agent'' = Some (js ''Mozilla/5.0'')
         \<and> map_of (opts_headers (make_opts parsed r)) ''Accept'' = Some (js ''*/*'')
         \<and> map_of (opts_headers (make_opts parsed r)) ''Accept-Encoding'' = Some (js ''identity'')
         \<and> map_of (opts_headers (make_opts parsed r)) ''Range'' =
             (case headers_range r of
                Some v \<Rightarrow> if v = [] then None else Some v
              | None \<Rightarrow> None)
         \<and> fst ` set (opts_headers (make_opts parsed r)) \<subseteq>
             {''User-Agent'', ''Accept'', ''Accept-Encoding'', ''Range''}"
proof -
  have "request_method (make_opts parsed r) = js ''GET''"
    by (simp add: request_method_def make_opts_fields)
  then show ?thesis
    using video_proxy_requested [OF assms] make_opts_headers [of parsed r]
      make_opts_header_names [of parsed r]
    by simp
qed

text \<open>The hypotheses of C5 hold for a range request to \<^verbatim>\<open>b.example\<close>.\<close>

theorem C5_witness:
  "video_proxy example_runtime
      \<lparr>query_url = Some (js ''http://b.example/v.mp4''),
       headers_range = Some (js ''bytes=0-2'')\<rparr> =
     Inr \<lparr>inbound =
            on_event (ResponseEvent
              \<lparr>statusCode = 206,
               headers = [(''content-type'', js ''video/webm''), (''content-length'', js ''3''),
                          (''content-range'', js ''bytes 0-2/10'')],
               body = [0x1A, 0x45, 0xDF]\<rparr>),
          outbound =
            [(http,
              \<lparr>opts_hostname = js ''b.example'', opts_port = PortNumber 80,
               opts_path = js ''/v.mp4'', opts_method = None,
               opts_headers =
                 [(''User-Agent'', js ''Mozilla/5.0''), (''Accept'', js ''*/*''),
                  (''Accept-Encoding'', js ''identity''), (''Range'', js ''bytes=0-2'')]\<rparr>)]\<rparr>
   \<and> request_method
        \<lparr>opts_hostname = js ''b.example'', opts_port = PortNumber 80,
         opts_path = js ''/v.mp4'', opts_method = None,
         opts_headers =
           [(''User-Agent'', js ''Mozilla/5.0''), (''Accept'', js ''*/*''),
            (''Accept-Encoding'', js ''identity''), (''Range'', js ''bytes=0-2'')]\<rparr> = js ''GET''"
proof -
  let ?r = "\<lparr>query_url = Some (js ''http://b.example/v.mp4''),
             headers_range = Some (js ''bytes=0-2'')\<rparr>"
  let ?parsed = "\<lparr>protocol = js ''http:'', username = [], password = [],
          hostname = js ''b.example'', port = [], pathname = js ''/v.mp4'',
          search = [], hash = []\<rparr>"
  let ?p = "\<lparr>statusCode = 206,
        headers = [(''content-type'', js ''video/webm''), (''content-length'', js ''3''),
                   (''content-range'', js ''bytes 0-2/10'')],
        body = [0x1A, 0x45, 0xDF]\<rparr>"
  have client: "select_client ?parsed = http"
    by (simp add: select_client_def js_eq_iff)
  have options: "make_opts ?parsed ?r =
      \<lparr>opts_hostname = js ''b.example'', opts_port = PortNumber 80,
       opts_path = js ''/v.mp4'', opts_method = None,
       opts_headers =
         [(''User-Agent'', js ''Mozilla/5.0''), (''Accept'', js ''*/*''),
          (''Accept-Encoding'', js ''identity''), (''Range'', js ''bytes=0-2'')]\<rparr>"
    by (simp add: make_opts_def when_truthy_def truthy_def js_eq_iff js_Nil)
  have ev: "client_request example_runtime (select_client ?parsed) (make_opts ?parsed ?r) =
          Inr (ResponseEvent ?p)"
    by (rule example_request_b) (simp add: make_opts_fields)
  have "query_url ?r = Some (js ''http://b.example/v.mp4'')"
    and "js ''http://b.example/v.mp4'' \<noteq> []"
    by (simp_all add: js_Nil)
  from C5_outbound_request [OF this example_decode(3) example_URL_simps(3) ev]
  show ?thesis unfolding client options by simp
qed

subsection \<open>C6: other schemes\<close>

text \<open>
  C6, as the specification states it: a target URL whose scheme is neither \<^verbatim>\<open>http\<close> nor
  \<^verbatim>\<open>https\<close> is answered with 400 and no outbound connection. The handler compares the
  scheme with \<^verbatim>\<open>https:\<close> only (lines 177 and 181). For
  \<^verbatim>\<open>GET /video-proxy?url=ftp%3A%2F%2Ffiles.example%2Fv.mp4\<close> it sends an HTTP request to
  port 80 of \<^verbatim>\<open>files.example\<close> and relays the answer.
\<close>

theorem C6_counterexample:
  "video_proxy example_runtime
     (inbound_request (Some (js ''ftp%3A%2F%2Ffiles.example%2Fv.mp4'')) None) =
   Inr \<lparr>inbound =
          Answered
            (Pipe 200 [(''Content-Type'', js ''video/mp4''), (''Accept-Ranges'', js ''bytes'')]
               [0x1A]),
        outbound =
          [(http,
            \<lparr>opts_hostname = js ''files.example'', opts_port = PortNumber 80,
             opts_path = js ''/v.mp4'', opts_method = None,
             opts_headers =
               [(''User-Agent'', js ''Mozilla/5.0''), (''Accept'', js ''*/*''),
                (''Accept-Encoding'', js ''identity'')]\<rparr>)]\<rparr>"
proof -
  let ?r = "inbound_request (Some (js ''ftp%3A%2F%2Ffiles.example%2Fv.mp4'')) None"
  let ?parsed = "\<lparr>protocol = js ''ftp:'', username = [], password = [],
          hostname = js ''files.example'', port = [], pathname = js ''/v.mp4'',
          search = [], hash = []\<rparr>"
  let ?p = "\<lparr>statusCode = 200, headers = [], body = [0x1A]\<rparr>"
  let ?options = "\<lparr>opts_hostname = js ''files.example'', opts_port = PortNumber 80,
       opts_path = js ''/v.mp4'', opts_method = None,
       opts_headers =
         [(''User-Agent'', js ''Mozilla/5.0''), (''Accept'', js ''*/*''),
          (''Accept-Encoding'', js ''identity'')]\<rparr>"
  have r: "query_url ?r = Some (js ''ftp://files.example/v.mp4'')"
    by (simp add: inbound_request_def example_query_value)
  have ne: "js ''ftp://files.example/v.mp4'' \<noteq> []"
    by (simp add: js_Nil)
  have client: "select_client ?parsed = http"
    by (simp add: select_client_def js_eq_iff)
  have options: "make_opts ?parsed ?r = ?options"
    by (simp add: make_opts_def inbound_request_def when_truthy_def truthy_def js_eq_iff)
  have ev: "client_request example_runtime http ?options = Inr (ResponseEvent ?p)"
    by (rule example_request_other [where h = "''files.example''"]) simp_all
  have "on_response ?p =
          Inr (Pipe 200 [(''Content-Type'', js ''video/mp4''), (''Accept-Ranges'', js ''bytes'')]
                 [0x1A])"
    by (simp add: on_response_def redirect_location_def content_headers_def or_else_def
          when_truthy_def truthy_def)
  then have "on_event (ResponseEvent ?p) =
          Answered (Pipe 200
            [(''Content-Type'', js ''video/mp4''), (''Accept-Ranges'', js ''bytes'')] [0x1A])"
    by simp
  then show ?thesis
    using video_proxy_requested [OF r ne example_decode(4) example_URL_simps(4)]
      ev client options
    by simp
qed

text \<open>
  C6, amended: the handler makes no scheme check. For every target URL that parses and
  whose scheme is not \<^verbatim>\<open>https:\<close> (\<^verbatim>\<open>http:\<close>, \<^verbatim>\<open>ftp:\<close>, \<^verbatim>\<open>file:\<close> or any other), it
  uses the \<^verbatim>\<open>http\<close> client, with port 80 when the URL has no port; when
  \<^verbatim>\<open>client.request\<close> creates the request, that one request is made and the handler does
  not answer with its own 400.
\<close>

theorem C6_no_scheme_check:
  assumes "query_url r = Some u" and "u \<noteq> []"
    and "decodeURIComponent u = Inr d" and "URL_new rt d = Inr parsed"
    and "protocol parsed \<noteq> js ''https:''"
    and "client_request rt http (make_opts parsed r) = Inr ev"
  shows "video_proxy rt r =
           Inr \<lparr>inbound = on_event ev, outbound = [(http, make_opts parsed r)]\<rparr>
         \<and> on_event ev \<noteq> Answered (End 400)
         \<and> opts_port (make_opts parsed r) =
             (if port parsed = [] then PortNumber 80 else PortString (port parsed))"
proof -
  from assms(5) have client: "select_client parsed = http"
    by (simp add: select_client_def)
  with assms(6)
  have "client_request rt (select_client parsed) (make_opts parsed r) = Inr ev"
    by simp
  from video_proxy_requested [OF assms(1-4) this] client assms(5)
  show ?thesis by (simp add: on_event_not_400 make_opts_fields)
qed

text \<open>The hypotheses of C6 hold for \<^verbatim>\<open>ftp://files.example/v.mp4\<close>.\<close>

theorem C6_witness:
  "protocol
      \<lparr>protocol = js ''ftp:'', username = [], password = [],
       hostname = js ''files.example'', port = [], pathname = js ''/v.mp4'',
       search = [], hash = []\<rparr> \<noteq> js ''https:''
   \<and> video_proxy example_runtime
       \<lparr>query_url = Some (js ''ftp://files.example/v.mp4''), headers_range = None\<rparr> =
     Inr \<lparr>inbound =
            on_event (ResponseEvent \<lparr>statusCode = 200, headers = [], body = [0x1A]\<rparr>),
          outbound =
            [(http,
              make_opts
                \<lparr>protocol = js ''ftp:'', username = [], password = [],
                 hostname = js ''files.example'', port = [], pathname = js ''/v.mp4'',
                 search = [], hash = []\<rparr>
                \<lparr>query_url = Some (js ''ftp://files.example/v.mp4''),
                 headers_range = None\<rparr>)]\<rparr>
   \<and> opts_port
        (make_opts
           \<lparr>protocol = js ''ftp:'', username = [], password = [],
            hostname = js ''files.example'', port = [], pathname = js ''/v.mp4'',
            search = [], hash = []\<rparr>
           \<lparr>query_url = Some (js ''ftp://files.example/v.mp4''),
            headers_range = None\<rparr>) = PortNumber 80"
proof -
  let ?r = "\<lparr>query_url = Some (js ''ftp://files.example/v.mp4''), headers_range = None\<rparr>"
  let ?parsed = "\<lparr>protocol = js ''ftp:'', username = [], password = [],
          hostname = js ''files.example'', port = [], pathname = js ''/v.mp4'',
          search = [], hash = []\<rparr>"
  have ev: "client_request example_runtime http (make_opts ?parsed ?r) =
          Inr (ResponseEvent \<lparr>statusCode = 200, headers = [], body = [0x1A]\<rparr>)"
    by (rule example_request_other [where h = "''files.example''"])
      (simp_all add: make_opts_fields)
  have "query_url ?r = Some (js ''ftp://files.example/v.mp4'')"
    and "js ''ftp://files.example/v.mp4'' \<noteq> []"
    and "protocol ?parsed \<noteq> js ''https:''"
    by (simp_all add: js_Nil js_eq_iff)
  from C6_no_scheme_check
         [OF this(1,2) example_decode(4) example_URL_simps(4) this(3) ev]
  show ?thesis by (simp add: js_eq_iff)
qed

subsection \<open>C7: percent-decoding\<close>

text \<open>
  C7: the raw value of the \<^verbatim>\<open>url\<close> parameter is to be percent-decoded exactly once, so
  that an escape in the target URL reaches the upstream. The code decodes it twice: the
  framework decodes the query string, and line 175 calls \<^verbatim>\<open>decodeURIComponent\<close> on the
  result. The browser code (line 585) and the redirect of line 196 encode once. For the
  target \<^verbatim>\<open>http://h.example/a%2Fb\<close> the raw value is
  \<^verbatim>\<open>http%3A%2F%2Fh.example%2Fa%252Fb\<close>, \<^verbatim>\<open>req.query.url\<close> is the target, the handler
  parses \<^verbatim>\<open>http://h.example/a/b\<close>, and the upstream is asked for \<^verbatim>\<open>/a/b\<close>. In every
  runtime the handler does for this request what it does for the request that names the
  target \<^verbatim>\<open>http://h.example/a/b\<close>.
\<close>

theorem C7_url_is_decoded_twice:
  "encodeURIComponent (js ''http://h.example/a%2Fb'') =
     Inr (js ''http%3A%2F%2Fh.example%2Fa%252Fb'')
   \<and> query_url (inbound_request (Some (js ''http%3A%2F%2Fh.example%2Fa%252Fb'')) None) =
       Some (js ''http://h.example/a%2Fb'')
   \<and> decodeURIComponent (js ''http://h.example/a%2Fb'') = Inr (js ''http://h.example/a/b'')
   \<and> video_proxy example_runtime
       (inbound_request (Some (js ''http%3A%2F%2Fh.example%2Fa%252Fb'')) None) =
     Inr \<lparr>inbound =
            Answered
              (Pipe 200
                 [(''Content-Type'', js ''video/mp4''), (''Accept-Ranges'', js ''bytes'')]
                 [0x1A]),
          outbound =
            [(http,
              \<lparr>opts_hostname = js ''h.example'', opts_port = PortNumber 80,
               opts_path = js ''/a/b'', opts_method = None,
               opts_headers =
                 [(''User-Agent'', js ''Mozilla/5.0''), (''Accept'', js ''*/*''),
                  (''Accept-Encoding'', js ''identity'')]\<rparr>)]\<rparr>
   \<and> video_proxy rt (inbound_request (Some (js ''http%3A%2F%2Fh.example%2Fa%252Fb'')) rg) =
       video_proxy rt (inbound_request (Some (js ''http%3A%2F%2Fh.example%2Fa%2Fb'')) rg)"
proof -
  let ?r = "inbound_request (Some (js ''http%3A%2F%2Fh.example%2Fa%252Fb'')) None"
  let ?parsed = "\<lparr>protocol = js ''http:'', username = [], password = [],
          hostname = js ''h.example'', port = [], pathname = js ''/a/b'',
          search = [], hash = []\<rparr>"
  let ?p = "\<lparr>statusCode = 200, headers = [], body = [0x1A]\<rparr>"
  let ?options = "\<lparr>opts_hostname = js ''h.example'', opts_port = PortNumber 80,
       opts_path = js ''/a/b'', opts_method = None,
       opts_headers =
         [(''User-Agent'', js ''Mozilla/5.0''), (''Accept'', js ''*/*''),
          (''Accept-Encoding'', js ''identity'')]\<rparr>"
  have r: "query_url ?r = Some (js ''http://h.example/a%2Fb'')"
    by (simp add: inbound_request_def example_query_value)
  have ne: "js ''http://h.example/a%2Fb'' \<noteq> []"
    by (simp add: js_Nil)
  have client: "select_client ?parsed = http"
    by (simp add: select_client_def js_eq_iff)
  have options: "make_opts ?parsed ?r = ?options"
    by (simp add: make_opts_def inbound_request_def when_truthy_def truthy_def js_eq_iff
          js_append)
  have ev: "client_request example_runtime http ?options = Inr (ResponseEvent ?p)"
    by (rule example_request_other [where h = "''h.example''"]) simp_all
  have "on_response ?p =
          Inr (Pipe 200 [(''Content-Type'', js ''video/mp4''), (''Accept-Ranges'', js ''bytes'')]
                 [0x1A])"
    by (simp add: on_response_def redirect_location_def content_headers_def or_else_def
          when_truthy_def truthy_def)
  then have "on_event (ResponseEvent ?p) =
          Answered (Pipe 200
            [(''Content-Type'', js ''video/mp4''), (''Accept-Ranges'', js ''bytes'')] [0x1A])"
    by simp
  moreover
  have "video_proxy rt (inbound_request (Some (js ''http%3A%2F%2Fh.example%2Fa%252Fb'')) rg) =
       video_proxy rt (inbound_request (Some (js ''http%3A%2F%2Fh.example%2Fa%2Fb'')) rg)"
    by (rule video_proxy_same_decoding
          [where u = "js ''http://h.example/a%2Fb''" and u' = "js ''http://h.example/a/b''"])
      (simp_all add: inbound_request_def example_query_value example_same example_decode
         js_Nil)
  ultimately show ?thesis
    using video_proxy_requested [OF r ne example_decode(7) example_URL_simps(7)]
      ev client options r example_encode(3) example_decode(7)
    by simp
qed

subsection \<open>C8: upstream errors\<close>

text \<open>
  C8, as the specification states it: every connection failure, timeout or transport
  error of the upstream is answered with 502 and an empty body. The handler answers 502
  from the \<^verbatim>\<open>'error'\<close> listener of line 213 only, and it sets no timeout. Upstream
  \<^verbatim>\<open>slow.example\<close> accepts the connection and never answers: the request has no event and
  the inbound request is never answered. Upstream \<^verbatim>\<open>cut.example\<close> answers 200, announces
  a thousand octets and resets the connection after two: the status line 200 has gone out
  with the first octet, and the listener ends the inbound response after the two octets.
\<close>

theorem C8_counterexample:
  "client_request example_runtime http
     \<lparr>opts_hostname = js ''slow.example'', opts_port = PortNumber 80,
      opts_path = js ''/v.mp4'', opts_method = None,
      opts_headers =
        [(''User-Agent'', js ''Mozilla/5.0''), (''Accept'', js ''*/*''),
         (''Accept-Encoding'', js ''identity'')]\<rparr> = Inr NoEvent
   \<and> video_proxy example_runtime
       \<lparr>query_url = Some (js ''http://slow.example/v.mp4''), headers_range = None\<rparr> =
     Inr \<lparr>inbound = Unanswered,
          outbound =
            [(http,
              \<lparr>opts_hostname = js ''slow.example'', opts_port = PortNumber 80,
               opts_path = js ''/v.mp4'', opts_method = None,
               opts_headers =
                 [(''User-Agent'', js ''Mozilla/5.0''), (''Accept'', js ''*/*''),
                  (''Accept-Encoding'', js ''identity'')]\<rparr>)]\<rparr>
   \<and> client_request example_runtime http
     \<lparr>opts_hostname = js ''cut.example'', opts_port = PortNumber 80,
      opts_path = js ''/v.mp4'', opts_method = None,
      opts_headers =
        [(''User-Agent'', js ''Mozilla/5.0''), (''Accept'', js ''*/*''),
         (''Accept-Encoding'', js ''identity'')]\<rparr> =
     Inr (ResponseThenError
       \<lparr>statusCode = 200, headers = [(''content-length'', js ''1000'')],
        body = [0x1A, 0x45]\<rparr>
       (js ''read ECONNRESET''))
   \<and> video_proxy example_runtime
       \<lparr>query_url = Some (js ''http://cut.example/v.mp4''), headers_range = None\<rparr> =
     Inr \<lparr>inbound =
            Answered
              (Cut 200
                 [(''Content-Type'', js ''video/mp4''), (''Accept-Ranges'', js ''bytes''),
                  (''Content-Length'', js ''1000'')]
                 [0x1A, 0x45]),
          outbound =
            [(http,
              \<lparr>opts_hostname = js ''cut.example'', opts_port = PortNumber 80,
               opts_path = js ''/v.mp4'', opts_method = None,
               opts_headers =
                 [(''User-Agent'', js ''Mozilla/5.0''), (''Accept'', js ''*/*''),
                  (''Accept-Encoding'', js ''identity'')]\<rparr>)]\<rparr>
   \<and> status_of
       (Cut 200
          [(''Content-Type'', js ''video/mp4''), (''Accept-Ranges'', js ''bytes''),
           (''Content-Length'', js ''1000'')]
          [0x1A, 0x45]) = 200"
proof -
  let ?r = "\<lparr>query_url = Some (js ''http://slow.example/v.mp4''), headers_range = None\<rparr>"
  let ?parsed = "\<lparr>protocol = js ''http:'', username = [], password = [],
          hostname = js ''slow.example'', port = [], pathname = js ''/v.mp4'',
          search = [], hash = []\<rparr>"
  let ?options = "\<lparr>opts_hostname = js ''slow.example'', opts_port = PortNumber 80,
       opts_path = js ''/v.mp4'', opts_method = None,
       opts_headers =
         [(''User-Agent'', js ''Mozilla/5.0''), (''Accept'', js ''*/*''),
          (''Accept-Encoding'', js ''identity'')]\<rparr>"
  let ?r' = "\<lparr>query_url = Some (js ''http://cut.example/v.mp4''), headers_range = None\<rparr>"
  let ?parsed' = "\<lparr>protocol = js ''http:'', username = [], password = [],
          hostname = js ''cut.example'', port = [], pathname = js ''/v.mp4'',
          search = [], hash = []\<rparr>"
  let ?p' = "\<lparr>statusCode = 200, headers = [(''content-length'', js ''1000'')],
        body = [0x1A, 0x45]\<rparr>"
  let ?options' = "\<lparr>opts_hostname = js ''cut.example'', opts_port = PortNumber 80,
       opts_path = js ''/v.mp4'', opts_method = None,
       opts_headers =
         [(''User-Agent'', js ''Mozilla/5.0''), (''Accept'', js ''*/*''),
          (''Accept-Encoding'', js ''identity'')]\<rparr>"
  have client: "select_client ?parsed = http"
    by (simp add: select_client_def js_eq_iff)
  have options: "make_opts ?parsed ?r = ?options"
    by (simp add: make_opts_def when_truthy_def truthy_def js_eq_iff)
  have ev: "client_request example_runtime http ?options = Inr NoEvent"
    by (rule example_request_slow) simp
  have "query_url ?r = Some (js ''http://slow.example/v.mp4'')"
    and "js ''http://slow.example/v.mp4'' \<noteq> []"
    by (simp_all add: js_Nil)
  then have slow:
    "video_proxy example_runtime ?r = Inr \<lparr>inbound = Unanswered, outbound = [(http, ?options)]\<rparr>"
    using video_proxy_requested [OF _ _ example_decode(12) example_URL_simps(11), of ?r]
      ev client options
    by simp
  have client': "select_client ?parsed' = http"
    by (simp add: select_client_def js_eq_iff)
  have options': "make_opts ?parsed' ?r' = ?options'"
    by (simp add: make_opts_def when_truthy_def truthy_def js_eq_iff)
  have ev': "client_request example_runtime http ?options' =
      Inr (ResponseThenError ?p' (js ''read ECONNRESET''))"
    by (rule example_request_cut) simp
  have "on_response ?p' =
          Inr (Pipe 200
                 [(''Content-Type'', js ''video/mp4''), (''Accept-Ranges'', js ''bytes''),
                  (''Content-Length'', js ''1000'')]
                 [0x1A, 0x45])"
    by (simp add: on_response_def redirect_location_def content_headers_def or_else_def
          when_truthy_def truthy_def js_Nil)
  then have "on_event (ResponseThenError ?p' (js ''read ECONNRESET'')) =
          Answered
            (Cut 200
               [(''Content-Type'', js ''video/mp4''), (''Accept-Ranges'', js ''bytes''),
                (''Content-Length'', js ''1000'')]
               [0x1A, 0x45])"
    by simp
  moreover have "query_url ?r' = Some (js ''http://cut.example/v.mp4'')"
    and "js ''http://cut.example/v.mp4'' \<noteq> []"
    by (simp_all add: js_Nil)
  ultimately have cut:
    "video_proxy example_runtime ?r' =
       Inr \<lparr>inbound =
              Answered
                (Cut 200
                   [(''Content-Type'', js ''video/mp4''), (''Accept-Ranges'', js ''bytes''),
                    (''Content-Length'', js ''1000'')]
                   [0x1A, 0x45]),
            outbound = [(http, ?options')]\<rparr>"
    using video_proxy_requested [OF _ _ example_decode(13) example_URL_simps(12), of ?r']
      ev' client' options'
    by simp
  from ev slow ev' cut show ?thesis by simp
qed

text \<open>
  C8, amended: the handler makes one upstream request and no second one, whatever becomes
  of the first. When the request emits \<^verbatim>\<open>'error'\<close> and there has been no response, the
  handler answers 502 with an empty body, whatever the error is. When the upstream stays
  silent, the inbound request is not answered: the handler sets no timeout. When the error
  comes after the callback has run, the answer depends on what the callback has done. For
  a content response (no redirect, status from 100 to 999) of which octets have been
  written, the inbound response keeps the upstream status and the headers of the callback
  and ends after those octets. When no octet has been written, the status is 502 and the
  body is empty, but the headers are those the callback has set. When the callback has
  answered with a redirect, the client has that redirect.
\<close>

theorem C8_upstream_failures:
  assumes "query_url r = Some u" and "u \<noteq> []"
    and "decodeURIComponent u = Inr d" and "URL_new rt d = Inr parsed"
    and "client_request rt (select_client parsed) (make_opts parsed r) = Inr ev"
  shows "(\<exists>out. video_proxy rt r =
              Inr \<lparr>inbound = out, outbound = [(select_client parsed, make_opts parsed r)]\<rparr>)
       \<and> (ev = ErrorEvent err \<longrightarrow>
            video_proxy rt r =
              Inr \<lparr>inbound = Answered (End 502),
                   outbound = [(select_client parsed, make_opts parsed r)]\<rparr>)
       \<and> status_of (End 502) = 502 \<and> body_of (End 502) = Some []
       \<and> (ev = NoEvent \<longrightarrow>
            video_proxy rt r =
              Inr \<lparr>inbound = Unanswered,
                   outbound = [(select_client parsed, make_opts parsed r)]\<rparr>)
       \<and> (ev = ResponseThenError p err
            \<and> \<not> (statusCode p \<in> {301, 302, 307, 308}
                  \<and> (\<exists>l. map_of (headers p) ''location'' = Some l \<and> l \<noteq> []))
            \<and> 100 \<le> statusCode p \<and> statusCode p \<le> 999 \<and> body p \<noteq> [] \<longrightarrow>
            video_proxy rt r =
              Inr \<lparr>inbound = Answered (Cut (statusCode p) (content_headers p) (body p)),
                   outbound = [(select_client parsed, make_opts parsed r)]\<rparr>)
       \<and> (ev = ResponseThenError p err
            \<and> \<not> (statusCode p \<in> {301, 302, 307, 308}
                  \<and> (\<exists>l. map_of (headers p) ''location'' = Some l \<and> l \<noteq> []))
            \<and> 100 \<le> statusCode p \<and> statusCode p \<le> 999 \<and> body p = [] \<longrightarrow>
            video_proxy rt r =
              Inr \<lparr>inbound = Answered (Cut 502 (content_headers p) []),
                   outbound = [(select_client parsed, make_opts parsed r)]\<rparr>)
       \<and> (ev = ResponseThenError p err
            \<and> statusCode p \<in> {301, 302, 307, 308} \<and> map_of (headers p) ''location'' = Some l
            \<and> l \<noteq> [] \<and> encodeURIComponent l = Inr enc \<longrightarrow>
            video_proxy rt r =
              Inr \<lparr>inbound = Answered (Redirect (js ''/video-proxy?url='' @ enc)),
                   outbound = [(select_client parsed, make_opts parsed r)]\<rparr>)"
proof -
  note run = video_proxy_requested [OF assms]
  have content: "on_event (ResponseThenError p err) =
      Answered (if body p = [] then Cut 502 (content_headers p) []
                else Cut (statusCode p) (content_headers p) (body p))"
    if "\<not> (statusCode p \<in> {301, 302, 307, 308}
            \<and> (\<exists>l. map_of (headers p) ''location'' = Some l \<and> l \<noteq> []))"
      and "100 \<le> statusCode p" and "statusCode p \<le> 999"
    using on_response_content [OF that] by simp
  have redirect: "on_event (ResponseThenError p err) =
      Answered (Redirect (js ''/video-proxy?url='' @ enc))"
    if "statusCode p \<in> {301, 302, 307, 308}" and "map_of (headers p) ''location'' = Some l"
      and "l \<noteq> []" and "encodeURIComponent l = Inr enc"
    using on_response_redirect [OF that] by simp
  show ?thesis
    using run content redirect by auto
qed

text \<open>
  The hypotheses of C8 hold in the example runtime: \<^verbatim>\<open>down.example\<close> refuses the
  connection, \<^verbatim>\<open>slow.example\<close> never answers, and \<^verbatim>\<open>cut.example\<close> resets the connection
  after two octets of the body. The last two cases are an upstream that resets the
  connection before the first octet of the body, and one that resets it after a redirect.
\<close>

theorem C8_witness:
  "video_proxy example_runtime
       \<lparr>query_url = Some (js ''http://down.example/v.mp4''), headers_range = None\<rparr> =
     Inr \<lparr>inbound = Answered (End 502),
          outbound =
            [(http,
              make_opts
                \<lparr>protocol = js ''http:'', username = [], password = [],
                 hostname = js ''down.example'', port = [], pathname = js ''/v.mp4'',
                 search = [], hash = []\<rparr>
                \<lparr>query_url = Some (js ''http://down.example/v.mp4''),
                 headers_range = None\<rparr>)]\<rparr>
   \<and> video_proxy example_runtime
       \<lparr>query_url = Some (js ''http://slow.example/v.mp4''), headers_range = None\<rparr> =
     Inr \<lparr>inbound = Unanswered,
          outbound =
            [(http,
              make_opts
                \<lparr>protocol = js ''http:'', username = [], password = [],
                 hostname = js ''slow.example'', port = [], pathname = js ''/v.mp4'',
                 search = [], hash = []\<rparr>
                \<lparr>query_url = Some (js ''http://slow.example/v.mp4''),
                 headers_range = None\<rparr>)]\<rparr>
   \<and> video_proxy example_runtime
       \<lparr>query_url = Some (js ''http://cut.example/v.mp4''), headers_range = None\<rparr> =
     Inr \<lparr>inbound =
            Answered
              (Cut 200
                 (content_headers
                    \<lparr>statusCode = 200, headers = [(''content-length'', js ''1000'')],
                     body = [0x1A, 0x45]\<rparr>)
                 [0x1A, 0x45]),
          outbound =
            [(http,
              make_opts
                \<lparr>protocol = js ''http:'', username = [], password = [],
                 hostname = js ''cut.example'', port = [], pathname = js ''/v.mp4'',
                 search = [], hash = []\<rparr>
                \<lparr>query_url = Some (js ''http://cut.example/v.mp4''),
                 headers_range = None\<rparr>)]\<rparr>
   \<and> video_proxy
       \<lparr>URL_new = example_URL,
        client_request =
          (\<lambda>c options. Inr (ResponseThenError
             \<lparr>statusCode = 200, headers = [(''content-length'', js ''1000'')], body = []\<rparr>
             (js ''read ECONNRESET'')))\<rparr>
       \<lparr>query_url = Some (js ''http://cut.example/v.mp4''), headers_range = None\<rparr> =
     Inr \<lparr>inbound =
            Answered
              (Cut 502
                 (content_headers
                    \<lparr>statusCode = 200, headers = [(''content-length'', js ''1000'')],
                     body = []\<rparr>)
                 []),
          outbound =
            [(http,
              make_opts
                \<lparr>protocol = js ''http:'', username = [], password = [],
                 hostname = js ''cut.example'', port = [], pathname = js ''/v.mp4'',
                 search = [], hash = []\<rparr>
                \<lparr>query_url = Some (js ''http://cut.example/v.mp4''),
                 headers_range = None\<rparr>)]\<rparr>
   \<and> video_proxy
       \<lparr>URL_new = example_URL,
        client_request =
          (\<lambda>c options. Inr (ResponseThenError
             \<lparr>statusCode = 302, headers = [(''location'', js ''http://b.example/v.mp4'')],
              body = []\<rparr>
             (js ''read ECONNRESET'')))\<rparr>
       \<lparr>query_url = Some (js ''http://cut.example/v.mp4''), headers_range = None\<rparr> =
     Inr \<lparr>inbound =
            Answered
              (Redirect (js ''/video-proxy?url='' @ js ''http%3A%2F%2Fb.example%2Fv.mp4'')),
          outbound =
            [(http,
              make_opts
                \<lparr>protocol = js ''http:'', username = [], password = [],
                 hostname = js ''cut.example'', port = [], pathname = js ''/v.mp4'',
                 search = [], hash = []\<rparr>
                \<lparr>query_url = Some (js ''http://cut.example/v.mp4''),
                 headers_range = None\<rparr>)]\<rparr>"
proof -
  let ?down = "\<lparr>query_url = Some (js ''http://down.example/v.mp4''), headers_range = None\<rparr>"
  let ?slow = "\<lparr>query_url = Some (js ''http://slow.example/v.mp4''), headers_range = None\<rparr>"
  let ?cut = "\<lparr>query_url = Some (js ''http://cut.example/v.mp4''), headers_range = None\<rparr>"
  let ?parsed_down = "\<lparr>protocol = js ''http:'', username = [], password = [],
          hostname = js ''down.example'', port = [], pathname = js ''/v.mp4'',
          search = [], hash = []\<rparr>"
  let ?parsed_slow = "\<lparr>protocol = js ''http:'', username = [], password = [],
          hostname = js ''slow.example'', port = [], pathname = js ''/v.mp4'',
          search = [], hash = []\<rparr>"
  let ?parsed_cut = "\<lparr>protocol = js ''http:'', username = [], password = [],
          hostname = js ''cut.example'', port = [], pathname = js ''/v.mp4'',
          search = [], hash = []\<rparr>"
  let ?p = "\<lparr>statusCode = 200, headers = [(''content-length'', js ''1000'')],
             body = [0x1A, 0x45]\<rparr>"
  let ?empty = "\<lparr>statusCode = 200, headers = [(''content-length'', js ''1000'')],
             body = []\<rparr>"
  let ?moved = "\<lparr>statusCode = 302, headers = [(''location'', js ''http://b.example/v.mp4'')],
             body = []\<rparr>"
  let ?rta = "\<lparr>URL_new = example_URL,
        client_request =
          (\<lambda>c options. Inr (ResponseThenError ?empty (js ''read ECONNRESET'')))\<rparr>"
  let ?rtb = "\<lparr>URL_new = example_URL,
        client_request =
          (\<lambda>c options. Inr (ResponseThenError ?moved (js ''read ECONNRESET'')))\<rparr>"
  have client: "select_client ?parsed_down = http" "select_client ?parsed_slow = http"
    "select_client ?parsed_cut = http"
    by (simp_all add: select_client_def js_eq_iff)
  have down: "client_request example_runtime (select_client ?parsed_down)
      (make_opts ?parsed_down ?down) = Inr (ErrorEvent (js ''connect ECONNREFUSED''))"
    by (rule example_request_down) (simp add: make_opts_fields)
  have slow: "client_request example_runtime (select_client ?parsed_slow)
      (make_opts ?parsed_slow ?slow) = Inr NoEvent"
    by (rule example_request_slow) (simp add: make_opts_fields)
  have cut: "client_request example_runtime (select_client ?parsed_cut)
      (make_opts ?parsed_cut ?cut) = Inr (ResponseThenError ?p (js ''read ECONNRESET''))"
    by (rule example_request_cut) (simp add: make_opts_fields)
  have cut0: "client_request ?rta (select_client ?parsed_cut) (make_opts ?parsed_cut ?cut) =
      Inr (ResponseThenError ?empty (js ''read ECONNRESET''))"
    and cut1: "client_request ?rtb (select_client ?parsed_cut) (make_opts ?parsed_cut ?cut) =
      Inr (ResponseThenError ?moved (js ''read ECONNRESET''))"
    by simp_all
  have url0: "URL_new ?rta (js ''http://cut.example/v.mp4'') = Inr ?parsed_cut"
    and url1: "URL_new ?rtb (js ''http://cut.example/v.mp4'') = Inr ?parsed_cut"
    using example_URL_simps(12) by (simp_all add: example_runtime_def)
  have ne: "js ''http://down.example/v.mp4'' \<noteq> []" "js ''http://slow.example/v.mp4'' \<noteq> []"
    "js ''http://cut.example/v.mp4'' \<noteq> []" "js ''http://b.example/v.mp4'' \<noteq> []"
    by (simp_all add: js_Nil)
  have "video_proxy example_runtime ?down =
     Inr \<lparr>inbound = Answered (End 502),
          outbound = [(select_client ?parsed_down, make_opts ?parsed_down ?down)]\<rparr>"
    using C8_upstream_failures
            [where r = ?down and err = "js ''connect ECONNREFUSED''",
             OF _ ne(1) example_decode(5) example_URL_simps(5) down]
    by simp
  moreover have "video_proxy example_runtime ?slow =
     Inr \<lparr>inbound = Unanswered,
          outbound = [(select_client ?parsed_slow, make_opts ?parsed_slow ?slow)]\<rparr>"
    using C8_upstream_failures
            [where r = ?slow, OF _ ne(2) example_decode(12) example_URL_simps(11) slow]
    by simp
  moreover have "video_proxy example_runtime ?cut =
     Inr \<lparr>inbound = Answered (Cut 200 (content_headers ?p) [0x1A, 0x45]),
          outbound = [(select_client ?parsed_cut, make_opts ?parsed_cut ?cut)]\<rparr>"
    using C8_upstream_failures
            [where r = ?cut and err = "js ''read ECONNRESET''" and p = ?p,
             OF _ ne(3) example_decode(13) example_URL_simps(12) cut]
    by simp
  moreover have "video_proxy ?rta ?cut =
     Inr \<lparr>inbound = Answered (Cut 502 (content_headers ?empty) []),
          outbound = [(select_client ?parsed_cut, make_opts ?parsed_cut ?cut)]\<rparr>"
    using C8_upstream_failures
            [where r = ?cut and err = "js ''read ECONNRESET''" and p = ?empty,
             OF _ ne(3) example_decode(13) url0 cut0]
    by simp
  moreover have "video_proxy ?rtb ?cut =
     Inr \<lparr>inbound =
            Answered
              (Redirect (js ''/video-proxy?url='' @ js ''http%3A%2F%2Fb.example%2Fv.mp4'')),
          outbound = [(select_client ?parsed_cut, make_opts ?parsed_cut ?cut)]\<rparr>"
    using C8_upstream_failures
            [where r = ?cut and err = "js ''read ECONNRESET''" and p = ?moved
               and l = "js ''http://b.example/v.mp4''"
               and enc = "js ''http%3A%2F%2Fb.example%2Fv.mp4''",
             OF _ ne(3) example_decode(13) url1 cut1]
      ne(4) example_encode(1)
    by simp
  ultimately show ?thesis using client by simp
qed

subsection \<open>C9: the outbound path\<close>

text \<open>
  C9: for every validly parsed target URL for which the request is created, the path of
  the outbound request is the URL's \<^verbatim>\<open>pathname\<close> followed by its \<^verbatim>\<open>search\<close>. The
  fragment, the user name and the password of the URL change neither the options nor the
  client, and the handler sets no \<^verbatim>\<open>Authorization\<close> header.
\<close>

theorem C9_path_is_pathname_and_search:
  assumes "query_url r = Some u" and "u \<noteq> []"
    and "decodeURIComponent u = Inr d" and "URL_new rt d = Inr parsed"
    and "client_request rt (select_client parsed) (make_opts parsed r) = Inr ev"
  shows "video_proxy rt r =
           Inr \<lparr>inbound = on_event ev,
                outbound = [(select_client parsed, make_opts parsed r)]\<rparr>
         \<and> opts_path (make_opts parsed r) = pathname parsed @ search parsed
         \<and> make_opts (parsed\<lparr>hash := fragment, username := user, password := pass\<rparr>) r =
             make_opts parsed r
         \<and> select_client (parsed\<lparr>hash := fragment, username := user, password := pass\<rparr>) =
             select_client parsed
         \<and> ''Authorization'' \<notin> fst ` set (opts_headers (make_opts parsed r))"
proof -
  have "''Authorization'' \<notin> fst ` set (opts_headers (make_opts parsed r))"
    using make_opts_header_names [of parsed r] by auto
  then show ?thesis
    using video_proxy_requested [OF assms]
    by (simp add: make_opts_fields) (simp add: make_opts_def select_client_def)
qed

text \<open>
  The hypotheses of C9 hold for
  \<^verbatim>\<open>https://user:pw@c.example:8443/p/v.mp4?t=1#frag\<close>: the request goes to
  \<^verbatim>\<open>c.example\<close>, port 8443, path \<^verbatim>\<open>/p/v.mp4?t=1\<close>.
\<close>

theorem C9_witness:
  "URL_new example_runtime (js ''https://user:pw@c.example:8443/p/v.mp4?t=1#frag'') =
     Inr \<lparr>protocol = js ''https:'', username = js ''user'', password = js ''pw'',
          hostname = js ''c.example'', port = js ''8443'', pathname = js ''/p/v.mp4'',
          search = js ''?t=1'', hash = js ''#frag''\<rparr>
   \<and> video_proxy example_runtime
       \<lparr>query_url = Some (js ''https://user:pw@c.example:8443/p/v.mp4?t=1#frag''),
        headers_range = None\<rparr> =
     Inr \<lparr>inbound =
            on_event (ResponseEvent \<lparr>statusCode = 200, headers = [], body = [0x1A]\<rparr>),
          outbound =
            [(https,
              \<lparr>opts_hostname = js ''c.example'', opts_port = PortString (js ''8443''),
               opts_path = js ''/p/v.mp4?t=1'', opts_method = None,
               opts_headers =
                 [(''User-Agent'', js ''Mozilla/5.0''), (''Accept'', js ''*/*''),
                  (''Accept-Encoding'', js ''identity'')]\<rparr>)]\<rparr>"
proof -
  let ?r = "\<lparr>query_url = Some (js ''https://user:pw@c.example:8443/p/v.mp4?t=1#frag''),
             headers_range = None\<rparr>"
  let ?parsed = "\<lparr>protocol = js ''https:'', username = js ''user'', password = js ''pw'',
          hostname = js ''c.example'', port = js ''8443'', pathname = js ''/p/v.mp4'',
          search = js ''?t=1'', hash = js ''#frag''\<rparr>"
  have client: "select_client ?parsed = https"
    by (simp add: select_client_def)
  have options: "make_opts ?parsed ?r =
      \<lparr>opts_hostname = js ''c.example'', opts_port = PortString (js ''8443''),
       opts_path = js ''/p/v.mp4?t=1'', opts_method = None,
       opts_headers =
         [(''User-Agent'', js ''Mozilla/5.0''), (''Accept'', js ''*/*''),
          (''Accept-Encoding'', js ''identity'')]\<rparr>"
    by (simp add: make_opts_def when_truthy_def truthy_def js_Nil js_append)
  have ev: "client_request example_runtime (select_client ?parsed) (make_opts ?parsed ?r) =
          Inr (ResponseEvent \<lparr>statusCode = 200, headers = [], body = [0x1A]\<rparr>)"
    by (rule example_request_other [where h = "''c.example''"])
      (simp_all add: make_opts_fields)
  have "query_url ?r = Some (js ''https://user:pw@c.example:8443/p/v.mp4?t=1#frag'')"
    and "js ''https://user:pw@c.example:8443/p/v.mp4?t=1#frag'' \<noteq> []"
    by (simp_all add: js_Nil)
  from C9_path_is_pathname_and_search
         [OF this example_decode(6) example_URL_simps(6) ev]
  show ?thesis unfolding client options by (simp add: example_URL_simps)
qed

subsection \<open>C10: exceptions\<close>

text \<open>
  C10, as the specification states it: no value of the \<^verbatim>\<open>url\<close> parameter can make the
  handler throw an uncaught exception. The \<^verbatim>\<open>try\<close> block of lines 174 to 218 encloses the
  decoding, the parsing and the creation of the request. The response callback of lines
  194 to 211 runs later, when the block has been left. For
  \<^verbatim>\<open>GET /video-proxy?url=http%3A%2F%2Fodd.example%2Fv.mp4\<close> the upstream answers with the
  status code 99, which is refused with a \<^verbatim>\<open>RangeError\<close>, and nothing catches it.
\<close>

theorem C10_counterexample:
  "client_request example_runtime http
     \<lparr>opts_hostname = js ''odd.example'', opts_port = PortNumber 80,
      opts_path = js ''/v.mp4'', opts_method = None,
      opts_headers =
        [(''User-Agent'', js ''Mozilla/5.0''), (''Accept'', js ''*/*''),
         (''Accept-Encoding'', js ''identity'')]\<rparr> =
     Inr (ResponseEvent \<lparr>statusCode = 99, headers = [], body = [0x1A]\<rparr>)
   \<and> on_response \<lparr>statusCode = 99, headers = [], body = [0x1A]\<rparr> = Inl RangeError
   \<and> uncaught
       (video_proxy example_runtime
          (inbound_request (Some (js ''http%3A%2F%2Fodd.example%2Fv.mp4'')) None)) =
     Some RangeError"
proof -
  let ?r = "inbound_request (Some (js ''http%3A%2F%2Fodd.example%2Fv.mp4'')) None"
  let ?parsed = "\<lparr>protocol = js ''http:'', username = [], password = [],
          hostname = js ''odd.example'', port = [], pathname = js ''/v.mp4'',
          search = [], hash = []\<rparr>"
  let ?p = "\<lparr>statusCode = 99, headers = [], body = [0x1A]\<rparr>"
  let ?options = "\<lparr>opts_hostname = js ''odd.example'', opts_port = PortNumber 80,
       opts_path = js ''/v.mp4'', opts_method = None,
       opts_headers =
         [(''User-Agent'', js ''Mozilla/5.0''), (''Accept'', js ''*/*''),
          (''Accept-Encoding'', js ''identity'')]\<rparr>"
  have r: "query_url ?r = Some (js ''http://odd.example/v.mp4'')"
    by (simp add: inbound_request_def uri_eval)
  have ne: "js ''http://odd.example/v.mp4'' \<noteq> []"
    by (simp add: js_Nil)
  have client: "select_client ?parsed = http"
    by (simp add: select_client_def js_eq_iff)
  have options: "make_opts ?parsed ?r = ?options"
    by (simp add: make_opts_def inbound_request_def when_truthy_def truthy_def js_eq_iff)
  have ev: "client_request example_runtime http ?options = Inr (ResponseEvent ?p)"
    by (rule example_request_odd) simp
  have throws: "on_response ?p = Inl RangeError"
    by (rule on_response_status_throws) simp_all
  then have "on_event (ResponseEvent ?p) = CallbackThrew RangeError"
    by simp
  then have "video_proxy example_runtime ?r =
       Inr \<lparr>inbound = CallbackThrew RangeError, outbound = [(http, ?options)]\<rparr>"
    using video_proxy_requested [OF r ne example_decode(11) example_URL_simps(10)]
      ev client options
    by simp
  then have "uncaught (video_proxy example_runtime ?r) = Some RangeError"
    by (simp add: uncaught_def)
  with ev throws show ?thesis by simp
qed

text \<open>
  C10, amended: no exception leaves the handler function itself. What
  \<^verbatim>\<open>decodeURIComponent\<close>, \<^verbatim>\<open>new URL\<close> or \<^verbatim>\<open>client.request\<close> throws is caught and answered
  with 400, and no upstream request has been created. An exception is left uncaught
  exactly when the handler has created the upstream request and the response callback
  throws: the upstream answers with a redirect whose \<^verbatim>\<open>Location\<close> \<^verbatim>\<open>encodeURIComponent\<close>
  rejects, or with a response that is no redirect and whose status code is below 100 or
  above 999, which gives a \<^verbatim>\<open>RangeError\<close>. \<^verbatim>\<open>encodeURIComponent\<close> rejects no Latin-1
  string, and header values are Latin-1 strings.
\<close>

theorem C10_exceptions:
  "(\<exists>res. video_proxy rt r = Inr res)
   \<and> (query_url r = Some u \<and> decodeURIComponent u = Inl e \<longrightarrow>
        video_proxy rt r = Inr \<lparr>inbound = Answered (End 400), outbound = []\<rparr>)
   \<and> (query_url r = Some u \<and> decodeURIComponent u = Inr d \<and> URL_new rt d = Inl e \<longrightarrow>
        video_proxy rt r = Inr \<lparr>inbound = Answered (End 400), outbound = []\<rparr>)
   \<and> (query_url r = Some u \<and> decodeURIComponent u = Inr d \<and> URL_new rt d = Inr parsed
        \<and> client_request rt (select_client parsed) (make_opts parsed r) = Inl e \<longrightarrow>
        video_proxy rt r = Inr \<lparr>inbound = Answered (End 400), outbound = []\<rparr>)
   \<and> (uncaught (video_proxy rt r) = Some e \<longleftrightarrow>
        (\<exists>u d parsed p.
            query_url r = Some u \<and> u \<noteq> [] \<and> decodeURIComponent u = Inr d
          \<and> URL_new rt d = Inr parsed
          \<and> (client_request rt (select_client parsed) (make_opts parsed r) =
                Inr (ResponseEvent p)
              \<or> (\<exists>err. client_request rt (select_client parsed) (make_opts parsed r) =
                    Inr (ResponseThenError p err)))
          \<and> ((\<exists>l. statusCode p \<in> {301, 302, 307, 308}
                   \<and> map_of (headers p) ''location'' = Some l \<and> l \<noteq> []
                   \<and> encodeURIComponent l = Inl e)
              \<or> (\<not> (statusCode p \<in> {301, 302, 307, 308}
                     \<and> (\<exists>l. map_of (headers p) ''location'' = Some l \<and> l \<noteq> []))
                  \<and> (statusCode p < 100 \<or> 999 < statusCode p) \<and> e = RangeError))))
   \<and> ((\<forall>c \<in> set l. c < 0x100) \<longrightarrow> encodeURIComponent l \<noteq> Inl e)"
proof (intro conjI impI)
  show "\<exists>res. video_proxy rt r = Inr res"
    by (simp add: video_proxy_def split: option.splits sum.splits prod.splits)
next
  assume "query_url r = Some u \<and> decodeURIComponent u = Inl e"
  then show "video_proxy rt r = Inr \<lparr>inbound = Answered (End 400), outbound = []\<rparr>"
    using video_proxy_thrown [of r u rt e] try_block_decode_throws [of u e rt r] by simp
next
  assume "query_url r = Some u \<and> decodeURIComponent u = Inr d \<and> URL_new rt d = Inl e"
  then show "video_proxy rt r = Inr \<lparr>inbound = Answered (End 400), outbound = []\<rparr>"
    using video_proxy_thrown [of r u rt e] try_block_URL_throws [of u d rt e r] by simp
next
  assume "query_url r = Some u \<and> decodeURIComponent u = Inr d \<and> URL_new rt d = Inr parsed
        \<and> client_request rt (select_client parsed) (make_opts parsed r) = Inl e"
  then show "video_proxy rt r = Inr \<lparr>inbound = Answered (End 400), outbound = []\<rparr>"
    using video_proxy_thrown [of r u rt e] try_block_request_throws [of u d rt parsed r e]
    by simp
next
  show "uncaught (video_proxy rt r) = Some e \<longleftrightarrow>
        (\<exists>u d parsed p.
            query_url r = Some u \<and> u \<noteq> [] \<and> decodeURIComponent u = Inr d
          \<and> URL_new rt d = Inr parsed
          \<and> (client_request rt (select_client parsed) (make_opts parsed r) =
                Inr (ResponseEvent p)
              \<or> (\<exists>err. client_request rt (select_client parsed) (make_opts parsed r) =
                    Inr (ResponseThenError p err)))
          \<and> ((\<exists>l. statusCode p \<in> {301, 302, 307, 308}
                   \<and> map_of (headers p) ''location'' = Some l \<and> l \<noteq> []
                   \<and> encodeURIComponent l = Inl e)
              \<or> (\<not> (statusCode p \<in> {301, 302, 307, 308}
                     \<and> (\<exists>l. map_of (headers p) ''location'' = Some l \<and> l \<noteq> []))
                  \<and> (statusCode p < 100 \<or> 999 < statusCode p) \<and> e = RangeError)))"
    unfolding uncaught_video_proxy_iff on_event_throws_iff on_response_throws_iff
    by (rule iffI) (elim exE conjE disjE; blast)+
next
  assume "\<forall>c \<in> set l. c < 0x100"
  then show "encodeURIComponent l \<noteq> Inl e"
    using Encode_latin1 [of l] by (auto simp add: encodeURIComponent_def)
qed

text \<open>
  \<^verbatim>\<open>decodeURIComponent\<close> throws on \<^verbatim>\<open>http://a.example/100%\<close>, whose last \<^verbatim>\<open>%\<close> starts
  no escape; \<^verbatim>\<open>new URL\<close> throws on \<^verbatim>\<open>not-a-url\<close>; the third case is a runtime whose
  \<^verbatim>\<open>client.request\<close> throws; the status code 99 of \<^verbatim>\<open>odd.example\<close> makes the callback
  throw.
\<close>

theorem C10_witness:
  "decodeURIComponent (js ''http://a.example/100%'') = Inl URIError
   \<and> video_proxy example_runtime
       \<lparr>query_url = Some (js ''http://a.example/100%''), headers_range = None\<rparr> =
     Inr \<lparr>inbound = Answered (End 400), outbound = []\<rparr>
   \<and> URL_new example_runtime (js ''not-a-url'') = Inl TypeError
   \<and> video_proxy example_runtime
       \<lparr>query_url = Some (js ''not-a-url''), headers_range = None\<rparr> =
     Inr \<lparr>inbound = Answered (End 400), outbound = []\<rparr>
   \<and> video_proxy \<lparr>URL_new = example_URL, client_request = (\<lambda>c options. Inl TypeError)\<rparr>
       \<lparr>query_url = Some (js ''http://b.example/v.mp4''), headers_range = None\<rparr> =
     Inr \<lparr>inbound = Answered (End 400), outbound = []\<rparr>
   \<and> uncaught
       (video_proxy example_runtime
          \<lparr>query_url = Some (js ''http://odd.example/v.mp4''), headers_range = None\<rparr>) =
     Some RangeError
   \<and> encodeURIComponent (js ''http://b.example/v.mp4'') \<noteq> Inl URIError"
proof -
  let ?odd = "\<lparr>query_url = Some (js ''http://odd.example/v.mp4''), headers_range = None\<rparr>"
  let ?b = "\<lparr>query_url = Some (js ''http://b.example/v.mp4''), headers_range = None\<rparr>"
  let ?parsed = "\<lparr>protocol = js ''http:'', username = [], password = [],
          hostname = js ''odd.example'', port = [], pathname = js ''/v.mp4'',
          search = [], hash = []\<rparr>"
  let ?parsed_b = "\<lparr>protocol = js ''http:'', username = [], password = [],
          hostname = js ''b.example'', port = [], pathname = js ''/v.mp4'',
          search = [], hash = []\<rparr>"
  let ?p = "\<lparr>statusCode = 99, headers = [], body = [0x1A]\<rparr>"
  let ?rt = "\<lparr>URL_new = example_URL, client_request = (\<lambda>c options. Inl TypeError)\<rparr>"
  have decode: "video_proxy example_runtime
       \<lparr>query_url = Some (js ''http://a.example/100%''), headers_range = None\<rparr> =
     Inr \<lparr>inbound = Answered (End 400), outbound = []\<rparr>"
    using C10_exceptions
          [of example_runtime
             "\<lparr>query_url = Some (js ''http://a.example/100%''), headers_range = None\<rparr>"
             "js ''http://a.example/100%''" URIError]
    by (simp add: example_decode)
  have parse: "video_proxy example_runtime
       \<lparr>query_url = Some (js ''not-a-url''), headers_range = None\<rparr> =
     Inr \<lparr>inbound = Answered (End 400), outbound = []\<rparr>"
    using C10_exceptions
          [of example_runtime "\<lparr>query_url = Some (js ''not-a-url''), headers_range = None\<rparr>"
             "js ''not-a-url''" TypeError "js ''not-a-url''"]
    by (simp add: example_decode example_URL_simps)
  have "URL_new ?rt (js ''http://b.example/v.mp4'') = Inr ?parsed_b"
    using example_URL_simps(3) by (simp add: example_runtime_def)
  then have request: "video_proxy ?rt ?b =
     Inr \<lparr>inbound = Answered (End 400), outbound = []\<rparr>"
    using C10_exceptions
          [of ?rt ?b "js ''http://b.example/v.mp4''" TypeError "js ''http://b.example/v.mp4''"
             ?parsed_b]
    by (simp add: example_decode)
  have ev: "client_request example_runtime (select_client ?parsed) (make_opts ?parsed ?odd) =
      Inr (ResponseEvent ?p)"
    by (rule example_request_odd) (simp add: make_opts_fields)
  have "\<exists>u d parsed p.
            query_url ?odd = Some u \<and> u \<noteq> [] \<and> decodeURIComponent u = Inr d
          \<and> URL_new example_runtime d = Inr parsed
          \<and> (client_request example_runtime (select_client parsed) (make_opts parsed ?odd) =
                Inr (ResponseEvent p)
              \<or> (\<exists>err. client_request example_runtime (select_client parsed)
                     (make_opts parsed ?odd) = Inr (ResponseThenError p err)))
          \<and> ((\<exists>l. statusCode p \<in> {301, 302, 307, 308}
                   \<and> map_of (headers p) ''location'' = Some l \<and> l \<noteq> []
                   \<and> encodeURIComponent l = Inl RangeError)
              \<or> (\<not> (statusCode p \<in> {301, 302, 307, 308}
                     \<and> (\<exists>l. map_of (headers p) ''location'' = Some l \<and> l \<noteq> []))
                  \<and> (statusCode p < 100 \<or> 999 < statusCode p) \<and> RangeError = RangeError))"
    using ev example_decode(11) example_URL_simps(10)
    by (intro exI [of _ "js ''http://odd.example/v.mp4''"] exI [of _ ?parsed] exI [of _ ?p])
      (simp add: js_Nil)
  then have odd: "uncaught (video_proxy example_runtime ?odd) = Some RangeError"
    using C10_exceptions [of example_runtime ?odd _ RangeError] by blast
  have "\<forall>c \<in> set (js ''http://b.example/v.mp4''). c < 0x100"
    by (simp add: js_def)
  then have latin1: "encodeURIComponent (js ''http://b.example/v.mp4'') \<noteq> Inl URIError"
    using C10_exceptions [where l = "js ''http://b.example/v.mp4''" and e = URIError]
    by blast
  from decode parse request odd latin1 show ?thesis
    by (simp add: example_decode example_URL_simps)
qed

end
